theory Spec2Isabelle
  imports Complex_Main "HOL-Library.Sublist"
begin

section \<open>The ESP motion-controller driver (Modules/ESP.py)\<close>

text \<open>
  A shallow embedding of the classes \<open>Motor\<close> and \<open>Polarizer\<close> of Modules/ESP.py.
  The instrument (a pyvisa resource) is the only source of effects apart from logging:
  every \<open>write\<close> and \<open>query\<close> on it either raises \<open>pyvisa.VisaIOError\<close> or returns.
  Python exceptions that leave a method are values of type \<open>exn\<close> on the left of a sum.
\<close>

subsection \<open>Python values\<close>

datatype exn =
    KeyError string
  | IndexError
  | ValueError string
  | UnboundLocalError string
  | OverflowError
  | VisaIOError

text \<open>
  A Python \<open>float\<close> is an IEEE 754 double: \<open>Fin x\<close> is the finite double of value \<open>x\<close>
  (\<open>Fin 0\<close> is \<open>0.0\<close>), \<open>NegZero\<close> is \<open>-0.0\<close>, and \<open>PosInf\<close>, \<open>NegInf\<close> and \<open>NaN\<close> are
  \<open>inf\<close>, \<open>-inf\<close> and \<open>nan\<close>.
\<close>

datatype pyfloat = Fin real | NegZero | PosInf | NegInf | NaN

text \<open>
  Rounding a real number to a double, to nearest with ties to even: the doubles around
  \<open>x\<close> are the multiples of the quantum \<open>2 ^ (e - 52)\<close>, where \<open>2 ^ e \<le> \<bar>x\<bar> < 2 ^ (e + 1)\<close>
  and \<open>e\<close> is at least \<open>-1022\<close> (below that the doubles are subnormal). The exponent is
  not bounded above here: \<open>double_result\<close> turns a result of magnitude \<open>2 ^ 1024\<close> or more
  into an infinity.
\<close>

definition round_half_even :: "real \<Rightarrow> int" where
  "round_half_even y =
     (if y - of_int \<lfloor>y\<rfloor> < 1 / 2 then \<lfloor>y\<rfloor>
      else if 1 / 2 < y - of_int \<lfloor>y\<rfloor> then \<lfloor>y\<rfloor> + 1
      else if even \<lfloor>y\<rfloor> then \<lfloor>y\<rfloor> else \<lfloor>y\<rfloor> + 1)"

definition double_quantum :: "real \<Rightarrow> real" where
  "double_quantum x = 2 powr (of_int (max \<lfloor>log 2 \<bar>x\<bar>\<rfloor> (- 1022)) - 52)"

definition round_double :: "real \<Rightarrow> real" where
  "round_double x =
     (if x = 0 then 0 else of_int (round_half_even (x / double_quantum x)) * double_quantum x)"

text \<open>The double that an operation gives when its exact result is the real \<open>s\<close>.\<close>

definition double_result :: "real \<Rightarrow> pyfloat" where
  "double_result s =
     (let r = round_double s in
      if 2 ^ 1024 \<le> r then PosInf
      else if r \<le> - (2 ^ 1024) then NegInf
      else if r = 0 \<and> s < 0 then NegZero
      else Fin r)"

text \<open>\<open>f + g\<close> on floats.\<close>

fun float_add :: "pyfloat \<Rightarrow> pyfloat \<Rightarrow> pyfloat" where
  "float_add NaN g = NaN"
| "float_add f NaN = NaN"
| "float_add PosInf NegInf = NaN"
| "float_add NegInf PosInf = NaN"
| "float_add PosInf g = PosInf"
| "float_add f PosInf = PosInf"
| "float_add NegInf g = NegInf"
| "float_add f NegInf = NegInf"
| "float_add NegZero g = g"
| "float_add f NegZero = f"
| "float_add (Fin x) (Fin y) = double_result (x + y)"

text \<open>\<open>float(a)\<close> of an int, as arithmetic with a float applies it to an int operand:
  the nearest double, or OverflowError when the int is too large.\<close>

definition float_of_int :: "int \<Rightarrow> exn + pyfloat" where
  "float_of_int a =
     (let r = round_double (of_int a) in
      if 2 ^ 1024 \<le> \<bar>r\<bar> then Inl OverflowError else Inr (Fin r))"

text \<open>
  Degrees are Python numbers: an \<open>int\<close> or a \<open>float\<close>. The sum of two ints is exact; a
  sum with a float converts an int operand and adds floats.
\<close>

datatype pynum = PyInt int | PyFloat pyfloat

fun num_add :: "pynum \<Rightarrow> pynum \<Rightarrow> exn + pynum" where
  "num_add (PyInt a) (PyInt b) = Inr (PyInt (a + b))"
| "num_add (PyInt a) (PyFloat g) =
     (case float_of_int a of Inl e \<Rightarrow> Inl e | Inr f \<Rightarrow> Inr (PyFloat (float_add f g)))"
| "num_add (PyFloat f) (PyInt b) =
     (case float_of_int b of Inl e \<Rightarrow> Inl e | Inr g \<Rightarrow> Inr (PyFloat (float_add f g)))"
| "num_add (PyFloat f) (PyFloat g) = Inr (PyFloat (float_add f g))"

declare num_add.simps [simp del]

text \<open>
  Comparison is by exact value, also between an int and a float: a number is minus
  infinity, a real or plus infinity, and \<open>nan\<close> is none of them and compares false with
  everything.
\<close>

datatype extended = MinusInfinity | Value real | PlusInfinity

fun float_ext :: "pyfloat \<Rightarrow> extended option" where
  "float_ext (Fin x) = Some (Value x)"
| "float_ext NegZero = Some (Value 0)"
| "float_ext PosInf = Some PlusInfinity"
| "float_ext NegInf = Some MinusInfinity"
| "float_ext NaN = None"

fun num_ext :: "pynum \<Rightarrow> extended option" where
  "num_ext (PyInt i) = Some (Value (of_int i))"
| "num_ext (PyFloat f) = float_ext f"

fun ext_le :: "extended \<Rightarrow> extended \<Rightarrow> bool" where
  "ext_le MinusInfinity y = True"
| "ext_le x PlusInfinity = True"
| "ext_le (Value x) (Value y) = (x \<le> y)"
| "ext_le x y = False"

text \<open>\<open>a <= b\<close> and \<open>a == b\<close>.\<close>

definition num_le :: "pynum \<Rightarrow> pynum \<Rightarrow> bool" where
  "num_le a b =
     (case (num_ext a, num_ext b) of (Some x, Some y) \<Rightarrow> ext_le x y | _ \<Rightarrow> False)"

definition num_eq :: "pynum \<Rightarrow> pynum \<Rightarrow> bool" where
  "num_eq a b =
     (case (num_ext a, num_ext b) of (Some x, Some y) \<Rightarrow> x = y | _ \<Rightarrow> False)"

text \<open>\<open>str\<close> of a Python int: its decimal digits, with a minus sign when negative.\<close>

definition digit_char :: "nat \<Rightarrow> char" where
  "digit_char d = ''0123456789'' ! d"

fun str_nat :: "nat \<Rightarrow> string" where
  "str_nat n = (if n < 10 then [digit_char n]
                else str_nat (n div 10) @ [digit_char (n mod 10)])"

declare str_nat.simps [simp del]

definition str_int :: "int \<Rightarrow> string" where
  "str_int i = (if i < 0 then CHR ''-'' # str_nat (nat (- i)) else str_nat (nat i))"

text \<open>
  The two built-ins on floats that the driver uses and that are not defined here:
  \<open>str\<close> of a float and \<open>float\<close> of a string (\<open>None\<close> when it raises ValueError).
\<close>

record builtins =
  float_str :: "pyfloat \<Rightarrow> string"
  float_parse :: "string \<Rightarrow> pyfloat option"

fun py_str :: "builtins \<Rightarrow> pynum \<Rightarrow> string" where
  "py_str py (PyInt i) = str_int i"
| "py_str py (PyFloat f) = float_str py f"

text \<open>\<open>sub in s\<close> on Python strings: \<open>sub\<close> occurs in \<open>s\<close> as a contiguous block.\<close>

fun str_in :: "string \<Rightarrow> string \<Rightarrow> bool" where
  "str_in sub [] = (sub = [])"
| "str_in sub (c # cs) = (prefix sub (c # cs) \<or> str_in sub cs)"

subsection \<open>The instrument and the log\<close>

text \<open>
  The outcome of one call on an instrument: it raises VisaIOError or it returns
  (the text read, for a query; the value a write returns is never used).
\<close>

datatype outcome = Fails | Returns string

text \<open>A call on an instrument: the instrument's handle and the text sent.\<close>

datatype call = Write string string | Query string string

text \<open>
  The messages passed to \<open>tools.logprint\<close>, one constructor for each call site, with
  the values interpolated into the message.
\<close>

datatype logmsg =
    LogMoving int pynum
  | LogOutOfBounds pynum int
  | LogErrorKnown string string string string
  | LogErrorUnknown string string
  | LogAsciiErrorKnown string string
  | LogAsciiErrorUnknown string
  | LogVisaIOError string string int
  | LogThreeAttemptsFailed

text \<open>
  The world outside the driver. \<open>replies k\<close> is the outcome of the \<open>k\<close>-th instrument
  call of the run (counted from 0), \<open>sent\<close> the calls made so far, in order, and
  \<open>logged\<close> the messages printed so far, in order.
\<close>

record world =
  replies :: "nat \<Rightarrow> outcome"
  sent :: "call list"
  logged :: "logmsg list"

text \<open>
  Modelled from the spec: \<open>tools.logprint\<close> (Modules/tools.py is not among the sources).
  The spec treats logging as an observability hook with no effect on behaviour; the
  model appends the message to the log.
\<close>

definition logprint :: "logmsg \<Rightarrow> world \<Rightarrow> world" where
  "logprint msg w = w\<lparr>logged := logged w @ [msg]\<rparr>"

definition instrument_write :: "string \<Rightarrow> string \<Rightarrow> world \<Rightarrow> outcome \<times> world" where
  "instrument_write inst command w =
     (replies w (length (sent w)), w\<lparr>sent := sent w @ [Write inst command]\<rparr>)"

definition instrument_query :: "string \<Rightarrow> string \<Rightarrow> world \<Rightarrow> outcome \<times> world" where
  "instrument_query inst command w =
     (replies w (length (sent w)), w\<lparr>sent := sent w @ [Query inst command]\<rparr>)"

subsection \<open>class Motor\<close>

definition COMMANDS :: "string \<rightharpoonup> string" where
  "COMMANDS = map_of
     [(''define home'', ''DH''),
      (''move to absolute position'', ''PA''),
      (''move to relative position'', ''PR''),
      (''read error code'', ''TE?''),
      (''search for home'', ''OR''),
      (''set home search mode'', ''OM''),
      (''set velocity'', ''VA''),
      (''wait for motion stop'', ''WS'')]"

definition ERROR_CODES :: "string \<rightharpoonup> string" where
  "ERROR_CODES = map_of
     [(''1'', ''PCI COMMUNICATION TIME-OUT''),
      (''7'', ''PARAMETER OUT OF RANGE''),
      (''9'', ''AXIS NUMBER OUT OF RANGE''),
      (''10'', ''MAXIMUM VELOCITY EXCEEDED''),
      (''13'', ''MOTOR NOT ENABLED''),
      (''37'', ''AXIS NUMBER MISSING''),
      (''38'', ''COMMAND PARAMETER MISSING'')]"

text \<open>
  The attributes of a Motor. \<open>axis\<close> is the axis number (the comment on lines 171-172
  calls it so), a Python int: \<open>str(self.axis)\<close> and \<open>{self.axis}\<close> in an f-string are
  \<open>str_int\<close> of it. \<open>bounds\<close> is the two-element list \<open>[bounds[0], bounds[1]]\<close>. \<open>current_position\<close> is set by the constructor in
  testflight mode only, and only read in testflight mode. No method assigns an
  attribute after the constructor, so the methods take the motor and return no new one.
\<close>

record motor =
  name :: string
  instrument :: string
  axis :: int
  bounds :: "pynum \<times> pynum"
  velocity :: pynum
  testflight :: bool
  current_position :: pynum

text \<open>\<open>Motor.write_command\<close> (lines 189-202). The result is Python's return value:
  \<open>None\<close>, or the string \<open>'VisaIOError'\<close>.\<close>

function write_command :: "motor \<Rightarrow> string \<Rightarrow> int \<Rightarrow> world \<Rightarrow> string option \<times> world" where
  "write_command m command attempt w =
     (case instrument_write (instrument m) command w of
        (Returns _, w1) \<Rightarrow> (None, w1)
      | (Fails, w1) \<Rightarrow>
          (let w2 = logprint (LogVisaIOError (name m) command attempt) w1 in
           if attempt < 3
           then (None, snd (write_command m command (attempt + 1) w2))
           else (Some ''VisaIOError'', logprint LogThreeAttemptsFailed w2)))"
  by pat_completeness auto
termination
  by (relation "measure (\<lambda>(m, command, attempt, w). nat (3 - attempt))") auto

declare write_command.simps [simp del]

text \<open>\<open>Motor.query_command\<close> (lines 204-218).\<close>

function query_command :: "motor \<Rightarrow> string \<Rightarrow> int \<Rightarrow> world \<Rightarrow> string \<times> world" where
  "query_command m command attempt w =
     (case instrument_query (instrument m) command w of
        (Returns output, w1) \<Rightarrow> (output, w1)
      | (Fails, w1) \<Rightarrow>
          (let w2 = logprint (LogVisaIOError (name m) command attempt) w1 in
           if attempt < 3
           then query_command m command (attempt + 1) w2
           else (''VisaIOError'', logprint LogThreeAttemptsFailed w2)))"
  by pat_completeness auto
termination
  by (relation "measure (\<lambda>(m, command, attempt, w). nat (3 - attempt))") auto

declare query_command.simps [simp del]

text \<open>
  Lines 164-167 of \<open>Motor.send_command\<close>: the text written to the instrument.
  \<open>parameter\<close> is the text that the f-string gives for the parameter.
\<close>

definition full_command :: "motor \<Rightarrow> string \<Rightarrow> string \<Rightarrow> exn + string" where
  "full_command m command parameter =
     (case COMMANDS command of
        None \<Rightarrow> Inl (KeyError command)
      | Some opcode \<Rightarrow>
          (let full = str_int (axis m) @ opcode @ parameter in
           if str_in ''move'' command
           then (let wait = str_int (axis m) @ the (COMMANDS ''wait for motion stop'') @ ''0''
                 in Inr (full @ '';'' @ wait))
           else Inr full))"

text \<open>
  Lines 173-174 of \<open>Motor.send_command\<close> (and 147-148 of \<open>send_ASCII_command\<close>):
  \<open>err[0]\<close> raises IndexError on the empty string.
\<close>

definition strip_axis :: "int \<Rightarrow> string \<Rightarrow> exn + string" where
  "strip_axis ax err =
     (case err of
        [] \<Rightarrow> Inl IndexError
      | c # cs \<Rightarrow> Inr (if [c] = str_int ax \<and> length err > 2 then cs else err))"

text \<open>\<open>Motor.send_command\<close> (lines 159-187). \<open>time.sleep(1)\<close> has no effect here.\<close>

definition send_command :: "motor \<Rightarrow> string \<Rightarrow> string \<Rightarrow> world \<Rightarrow> (exn + bool) \<times> world" where
  "send_command m command parameter w =
     (if testflight m then (Inr True, w)
      else case full_command m command parameter of
        Inl e \<Rightarrow> (Inl e, w)
      | Inr full \<Rightarrow>
          (let w1 = snd (write_command m full 1 w);
               (err0, w2) = query_command m (the (COMMANDS ''read error code'')) 1 w1
           in (case strip_axis (axis m) err0 of
                 Inl e \<Rightarrow> (Inl e, w2)
               | Inr err \<Rightarrow>
                   if err \<noteq> ''0'' then
                     (case ERROR_CODES err of
                        Some description \<Rightarrow>
                          (Inr False, logprint (LogErrorKnown err description (name m) full) w2)
                      | None \<Rightarrow>
                          (Inr False, logprint (LogErrorUnknown err (name m)) w2))
                   else (Inr True, w2))))"

text \<open>\<open>Motor.send_ASCII_command\<close> (lines 141-157): no retry, so a VisaIOError leaves
  the method.\<close>

definition send_ASCII_command :: "motor \<Rightarrow> string \<Rightarrow> world \<Rightarrow> (exn + bool) \<times> world" where
  "send_ASCII_command m command w =
     (if testflight m then (Inr True, w)
      else case instrument_write (instrument m) command w of
        (Fails, w1) \<Rightarrow> (Inl VisaIOError, w1)
      | (Returns _, w1) \<Rightarrow>
          (case instrument_query (instrument m) (the (COMMANDS ''read error code'')) w1 of
             (Fails, w2) \<Rightarrow> (Inl VisaIOError, w2)
           | (Returns err0, w2) \<Rightarrow>
               (case strip_axis (axis m) err0 of
                  Inl e \<Rightarrow> (Inl e, w2)
                | Inr err \<Rightarrow>
                    if err \<noteq> ''0'' then
                      (case ERROR_CODES err of
                         Some description \<Rightarrow>
                           (Inr False, logprint (LogAsciiErrorKnown err description) w2)
                       | None \<Rightarrow> (Inr False, logprint (LogAsciiErrorUnknown err) w2))
                    else (Inr True, w2))))"

text \<open>\<open>Motor.get_current_position\<close> (lines 119-123). \<open>[:-1]\<close> drops the last character.\<close>

definition get_current_position :: "builtins \<Rightarrow> motor \<Rightarrow> world \<Rightarrow> (exn + pynum) \<times> world" where
  "get_current_position py m w =
     (if testflight m then (Inr (current_position m), w)
      else case instrument_query (instrument m) (str_int (axis m) @ ''TP?'') w of
        (Fails, w1) \<Rightarrow> (Inl VisaIOError, w1)
      | (Returns r, w1) \<Rightarrow>
          (case float_parse py (butlast r) of
             None \<Rightarrow> (Inl (ValueError (butlast r)), w1)
           | Some x \<Rightarrow> (Inr (PyFloat x), w1)))"

text \<open>
  Lines 126-129 of \<open>Motor.move\<close>. With any other mode \<open>new_position\<close> is unbound and
  line 131 raises UnboundLocalError.
\<close>

definition new_position :: "builtins \<Rightarrow> motor \<Rightarrow> pynum \<Rightarrow> string \<Rightarrow> world \<Rightarrow> (exn + pynum) \<times> world" where
  "new_position py m degrees mode w =
     (if mode = ''absolute'' then (Inr degrees, w)
      else if mode = ''relative'' then
        (case get_current_position py m w of
           (Inl e, w1) \<Rightarrow> (Inl e, w1)
         | (Inr p, w1) \<Rightarrow>
             (case num_add p degrees of
                Inl e \<Rightarrow> (Inl e, w1)
              | Inr target \<Rightarrow> (Inr target, w1)))
      else (Inl (UnboundLocalError ''new_position''), w))"

text \<open>\<open>Motor.move\<close> (lines 125-139). The method has no return statement: it returns
  \<open>None\<close> on both branches.\<close>

definition move :: "builtins \<Rightarrow> motor \<Rightarrow> pynum \<Rightarrow> string \<Rightarrow> bool \<Rightarrow> world \<Rightarrow> (exn + unit) \<times> world" where
  "move py m degrees mode verbose w =
     (case new_position py m degrees mode w of
        (Inl e, w1) \<Rightarrow> (Inl e, w1)
      | (Inr target, w1) \<Rightarrow>
          (let allowed = (num_le (fst (bounds m)) target \<and> num_le target (snd (bounds m))) in
           if allowed then
             (let w2 = (if verbose then logprint (LogMoving (axis m) target) w1 else w1) in
              case send_command m ''move to absolute position'' (py_str py target) w2 of
                (Inl e, w3) \<Rightarrow> (Inl e, w3)
              | (Inr _, w3) \<Rightarrow> (Inr (), w3))
           else (Inr (), logprint (LogOutOfBounds target (axis m)) w1)))"

text \<open>\<open>Motor.__init__\<close> (lines 95-106).\<close>

definition Motor_init ::
  "builtins \<Rightarrow> string \<Rightarrow> string \<Rightarrow> int \<Rightarrow> pynum \<times> pynum \<Rightarrow> pynum \<Rightarrow> bool \<Rightarrow> world
     \<Rightarrow> (exn + motor) \<times> world" where
  "Motor_init py nm inst ax bnds vel tf w =
     (let m = \<lparr>name = nm, instrument = inst, axis = ax, bounds = bnds, velocity = vel,
               testflight = tf, current_position = PyFloat (Fin 0)\<rparr> in
      if tf then (Inr m, w)
      else case send_command m ''set velocity'' (py_str py vel) w of
        (Inl e, w1) \<Rightarrow> (Inl e, w1)
      | (Inr _, w1) \<Rightarrow>
          (case send_command m ''set home search mode'' (str_int 0) w1 of
             (Inl e, w2) \<Rightarrow> (Inl e, w2)
           | (Inr _, w2) \<Rightarrow> (Inr m, w2)))"

subsection \<open>class Polarizer\<close>

record polarizer =
  lin_polarizer :: motor
  quart_lambda :: motor

text \<open>\<open>Polarizer.set\<close> (lines 232-239).\<close>

definition Polarizer_set :: "builtins \<Rightarrow> polarizer \<Rightarrow> pynum \<Rightarrow> bool \<Rightarrow> world \<Rightarrow> (exn + unit) \<times> world" where
  "Polarizer_set py pol degrees verbose w =
     (case move py (lin_polarizer pol) degrees ''absolute'' verbose w of
        (Inl e, w1) \<Rightarrow> (Inl e, w1)
      | (Inr _, w1) \<Rightarrow>
          (case get_current_position py (lin_polarizer pol) w1 of
             (Inl e, w2) \<Rightarrow> (Inl e, w2)
           | (Inr p, w2) \<Rightarrow>
               (case num_add p (PyInt 45) of
                  Inl e \<Rightarrow> (Inl e, w2)
                | Inr target \<Rightarrow> move py (quart_lambda pol) target ''absolute'' verbose w2)))"

subsection \<open>The wire grammar in the words of the specification\<close>

text \<open>
  The specification's grammar of a command, for comparison with \<open>full_command\<close>:
  \<open>"{axisId}{opcode}{parameter};{axisId}{waitOpcode}0"\<close> for a motion command and
  \<open>"{axisId}{opcode}{parameter}"\<close> otherwise.
\<close>

definition spec_wire_string :: "string \<Rightarrow> string \<Rightarrow> string \<Rightarrow> string \<Rightarrow> bool \<Rightarrow> string" where
  "spec_wire_string axisId opcode parameter waitOpcode motion =
     (if motion then axisId @ opcode @ parameter @ '';'' @ axisId @ waitOpcode @ ''0''
      else axisId @ opcode @ parameter)"

subsection \<open>Example values\<close>

text \<open>
  Values for the examples: the doubles nearest to 30.1 and to 75.1, a table of
  built-ins holding the few floats the examples use, a motor with the default bounds and velocity, a polarizer of two such motors on
  axes 1 and 2, and a world whose first instrument calls have the listed outcomes
  (every later call returns \<open>'0'\<close>).
\<close>

definition double_30_1 :: real where
  "double_30_1 = 4236198399495373 / 2 ^ 47"

definition double_75_1 :: real where
  "double_75_1 = 2642346343871283 / 2 ^ 45"

definition example_builtins :: builtins where
  "example_builtins =
     \<lparr>float_str = (\<lambda>f. if f = Fin double_75_1 then ''75.1''
                        else if f = Fin 190 then ''190.0''
                        else if f = Fin 175 then ''175.0'' else ''0.0''),
      float_parse = (\<lambda>s. if s = ''30.1'' then Some (Fin double_30_1)
                          else if s = ''170.0'' then Some (Fin 170) else None)\<rparr>"

definition example_motor :: "string \<Rightarrow> int \<Rightarrow> bool \<Rightarrow> motor" where
  "example_motor nm ax tf =
     \<lparr>name = nm, instrument = ''GPIB0::1::INSTR'', axis = ax,
      bounds = (PyInt (- 180), PyInt 180), velocity = PyInt 4, testflight = tf,
      current_position = PyFloat (Fin 0)\<rparr>"

definition example_world :: "outcome list \<Rightarrow> world" where
  "example_world rs =
     \<lparr>replies = (\<lambda>k. if k < length rs then rs ! k else Returns ''0''),
      sent = [], logged = []\<rparr>"

definition example_polarizer :: polarizer where
  "example_polarizer =
     \<lparr>lin_polarizer = example_motor ''linear polarizer'' 1 False,
      quart_lambda = example_motor ''quarter wave plate'' 2 False\<rparr>"

section \<open>Properties\<close>

subsection \<open>Rounding to doubles\<close>

lemma round_half_even_of_int: "round_half_even (of_int k) = k"
  by (simp add: round_half_even_def)

lemma round_half_even_error: "\<bar>of_int (round_half_even y) - y\<bar> \<le> 1 / 2"
proof -
  have "of_int \<lfloor>y\<rfloor> \<le> y" "y < of_int \<lfloor>y\<rfloor> + 1" by linarith+
  then show ?thesis
    by (auto simp: round_half_even_def abs_le_iff)
qed

lemma double_quantum_pos: "0 < double_quantum x"
  by (simp add: double_quantum_def)

lemma round_double_error: "\<bar>round_double x - x\<bar> \<le> double_quantum x / 2"
proof (cases "x = 0")
  case True
  then show ?thesis using double_quantum_pos [of x] by (simp add: round_double_def)
next
  case False
  define q where "q = double_quantum x"
  define a :: real where "a = of_int (round_half_even (x / q))"
  have q: "0 < q" unfolding q_def by (rule double_quantum_pos)
  have "\<bar>a - x / q\<bar> \<le> 1 / 2"
    unfolding a_def by (rule round_half_even_error)
  then have "\<bar>a - x / q\<bar> * q \<le> 1 / 2 * q"
    using q by (intro mult_right_mono) simp_all
  moreover have "(a - x / q) * q = a * q - x"
    using q by (simp add: field_simps)
  then have "\<bar>a * q - x\<bar> = \<bar>a - x / q\<bar> * q"
    using q by (metis abs_mult abs_of_pos)
  ultimately have "\<bar>a * q - x\<bar> \<le> q / 2" by simp
  then show ?thesis using False by (simp add: round_double_def a_def q_def)
qed

lemma round_double_representable:
  assumes "x / double_quantum x = of_int k"
  shows "round_double x = x"
proof (cases "x = 0")
  case True
  then show ?thesis by (simp add: round_double_def)
next
  case False
  have q: "double_quantum x \<noteq> 0" using double_quantum_pos [of x] by simp
  have "of_int (round_half_even (x / double_quantum x)) * double_quantum x
          = x / double_quantum x * double_quantum x"
    unfolding assms round_half_even_of_int ..
  also have "\<dots> = x" using q by simp
  finally show ?thesis using False by (simp add: round_double_def)
qed

lemma floor_log2_eq:
  assumes "2 ^ k \<le> x" and "x < 2 ^ Suc k"
  shows "\<lfloor>log 2 x\<rfloor> = int k"
proof -
  have "(0::real) < 2 ^ k" by simp
  with assms(1) have x: "0 < x" by linarith
  have "real k \<le> log 2 x"
    using assms(1) x by (simp add: le_log_iff powr_realpow)
  moreover have "log 2 x < real k + 1"
    using assms(2) x by (simp add: log_less_iff powr_realpow powr_add)
  ultimately show ?thesis by (simp add: floor_eq_iff)
qed

lemma double_quantum_eq:
  assumes "2 ^ k \<le> \<bar>x\<bar>" and "\<bar>x\<bar> < 2 ^ Suc k" and "k \<le> 52"
  shows "double_quantum x = 1 / 2 ^ (52 - k)"
proof -
  have "\<lfloor>log 2 \<bar>x\<bar>\<rfloor> = int k" using assms(1,2) by (rule floor_log2_eq)
  then have "double_quantum x = 2 powr (real_of_int (int k - 52))"
    by (simp add: double_quantum_def)
  also have "real_of_int (int k - 52) = - real (52 - k)"
    using assms(3) by simp
  also have "2 powr (- real (52 - k)) = 1 / 2 ^ (52 - k)"
    by (simp add: powr_minus powr_realpow divide_inverse)
  finally show ?thesis .
qed

lemma power_bracket:
  fixes n :: nat
  assumes "1 \<le> n" and "n < 2 ^ 53"
  shows "\<exists>k\<le>52. 2 ^ k \<le> n \<and> n < 2 ^ Suc k"
proof -
  define k where "k = (GREATEST j. 2 ^ j \<le> n)"
  have ex: "2 ^ 0 \<le> n" using assms(1) by simp
  have bound: "j \<le> 52" if "2 ^ j \<le> n" for j
  proof -
    from that assms(2) have lt: "(2::nat) ^ j < 2 ^ 53" by linarith
    have "(1::nat) < 2" by simp
    from this lt have "j < 53" by (rule power_less_imp_less_exp)
    then show ?thesis by simp
  qed
  have k1: "2 ^ k \<le> n"
    unfolding k_def by (rule GreatestI_nat [where P = "\<lambda>j. 2 ^ j \<le> n", OF ex bound])
  have k2: "\<not> 2 ^ Suc k \<le> n"
  proof
    assume "2 ^ Suc k \<le> n"
    then have "Suc k \<le> k"
      unfolding k_def by (rule Greatest_le_nat [where P = "\<lambda>j. 2 ^ j \<le> n", OF _ bound])
    then show False by simp
  qed
  from k1 have "k \<le> 52" by (rule bound)
  with k1 k2 show ?thesis by (intro exI [of _ k]) simp
qed

lemma round_double_of_int:
  assumes "\<bar>n\<bar> < 2 ^ 53"
  shows "round_double (of_int n) = of_int n"
proof (cases "n = 0")
  case True
  then show ?thesis by (simp add: round_double_def)
next
  case False
  then have "1 \<le> nat \<bar>n\<bar>" by simp
  moreover have "nat \<bar>n\<bar> < 2 ^ 53" using assms by (simp add: nat_less_iff)
  ultimately obtain k where k: "k \<le> 52" "2 ^ k \<le> nat \<bar>n\<bar>" "nat \<bar>n\<bar> < 2 ^ Suc k"
    using power_bracket by blast
  have a: "real (nat \<bar>n\<bar>) = \<bar>real_of_int n\<bar>" by simp
  have "(2::real) ^ k \<le> real (nat \<bar>n\<bar>)"
    using k(2) by (metis of_nat_le_iff of_nat_numeral of_nat_power)
  then have 1: "2 ^ k \<le> \<bar>real_of_int n\<bar>" unfolding a .
  have "real (nat \<bar>n\<bar>) < 2 ^ Suc k"
    using k(3) by (metis of_nat_less_iff of_nat_numeral of_nat_power)
  then have 2: "\<bar>real_of_int n\<bar> < 2 ^ Suc k" unfolding a .
  have q: "double_quantum (of_int n) = 1 / 2 ^ (52 - k)"
    using 1 2 k(1) by (rule double_quantum_eq)
  have "real_of_int n / double_quantum (of_int n) = of_int (n * 2 ^ (52 - k))"
    unfolding q by simp
  then show ?thesis by (rule round_double_representable)
qed

lemma double_result_of_int:
  assumes "\<bar>n\<bar> < 2 ^ 53"
  shows "double_result (of_int n) = Fin (of_int n)"
proof -
  have r: "round_double (of_int n) = of_int n" using assms by (rule round_double_of_int)
  have "\<bar>real_of_int n\<bar> < 2 ^ 53"
    using assms by (metis of_int_abs of_int_less_iff of_int_numeral of_int_power)
  moreover have "(2::real) ^ 53 < 2 ^ 1024" by simp
  ultimately have b: "\<bar>real_of_int n\<bar> < 2 ^ 1024" by linarith
  then have "\<not> 2 ^ 1024 \<le> real_of_int n" "\<not> real_of_int n \<le> - (2 ^ 1024)" by linarith+
  then show ?thesis unfolding double_result_def r Let_def by auto
qed

lemma float_of_int_small:
  assumes "\<bar>n\<bar> < 2 ^ 53"
  shows "float_of_int n = Inr (Fin (of_int n))"
proof -
  have r: "round_double (of_int n) = of_int n" using assms by (rule round_double_of_int)
  have "\<bar>real_of_int n\<bar> < 2 ^ 53"
    using assms by (metis of_int_abs of_int_less_iff of_int_numeral of_int_power)
  moreover have "(2::real) ^ 53 < 2 ^ 1024" by simp
  ultimately have "\<not> 2 ^ 1024 \<le> \<bar>real_of_int n\<bar>" by linarith
  then show ?thesis unfolding float_of_int_def r Let_def by simp
qed

lemma float_add_of_int:
  assumes "\<bar>a + b\<bar> < 2 ^ 53"
  shows "float_add (Fin (of_int a)) (Fin (of_int b)) = Fin (of_int (a + b))"
  using double_result_of_int [OF assms] by simp

lemma float_of_int_45: "float_of_int 45 = Inr (Fin 45)"
  using float_of_int_small [of 45] by simp

lemma ext_le_refl: "ext_le x x"
  by (cases x) simp_all

lemma num_eq_le_left: "num_eq d b \<Longrightarrow> num_le a d = num_le a b"
  by (auto simp: num_eq_def num_le_def split: option.splits)

lemma num_eq_le_right: "num_eq d b \<Longrightarrow> num_le d c = num_le b c"
  by (auto simp: num_eq_def num_le_def split: option.splits)

lemma num_eq_le: "num_eq d b \<Longrightarrow> num_le b d \<and> num_le d b"
  by (auto simp: num_eq_def num_le_def ext_le_refl split: option.splits)

lemma num_le_int: "num_le (PyInt a) (PyInt b) = (a \<le> b)"
  by (simp add: num_le_def)

lemma num_le_int_fin: "num_le (PyInt a) (PyFloat (Fin y)) = (of_int a \<le> y)"
  by (simp add: num_le_def)

lemma num_le_fin_int: "num_le (PyFloat (Fin x)) (PyInt b) = (x \<le> of_int b)"
  by (simp add: num_le_def)

lemma double_result_ext:
  assumes "float_ext (double_result s) = Some (Value r)"
  shows "r = round_double s"
  using assms by (auto simp: double_result_def Let_def split: if_splits)

lemma float_add_45_ext:
  assumes "float_ext f = Some (Value v)"
    and "float_ext (float_add f (Fin 45)) = Some (Value r)"
  shows "r = round_double (v + 45)"
proof (cases f)
  case (Fin x)
  with assms show ?thesis by (simp add: double_result_ext)
next
  case NegZero
  with assms show ?thesis using round_double_of_int [of 45] by simp
qed (use assms in simp_all)

lemma num_add_45:
  "num_add p (PyInt 45) =
     Inr (case p of PyInt i \<Rightarrow> PyInt (i + 45) | PyFloat f \<Rightarrow> PyFloat (float_add f (Fin 45)))"
  by (cases p) (simp_all add: num_add.simps float_of_int_45)

lemma num_add_fin_int:
  assumes "\<bar>b\<bar> < 2 ^ 53" and "\<bar>a + b\<bar> < 2 ^ 53"
  shows "num_add (PyFloat (Fin (of_int a))) (PyInt b) = Inr (PyFloat (Fin (of_int (a + b))))"
  using float_of_int_small [OF assms(1)] float_add_of_int [OF assms(2)]
  by (simp add: num_add.simps)

lemma num_add_0_10: "num_add (PyFloat (Fin 0)) (PyInt 10) = Inr (PyFloat (Fin 10))"
  using num_add_fin_int [of 10 0] by simp

lemma num_add_170_20: "num_add (PyFloat (Fin 170)) (PyInt 20) = Inr (PyFloat (Fin 190))"
  using num_add_fin_int [of 20 170] by simp

lemma num_add_170_5: "num_add (PyFloat (Fin 170)) (PyInt 5) = Inr (PyFloat (Fin 175))"
  using num_add_fin_int [of 5 170] by simp

lemma round_double_30_1_plus_45: "round_double (double_30_1 + 45) = double_75_1"
proof -
  define s :: real where "s = 10569385375485133 / 2 ^ 47"
  have s: "double_30_1 + 45 = s" by (simp add: double_30_1_def s_def)
  have "2 ^ 6 \<le> \<bar>s\<bar>" and "\<bar>s\<bar> < 2 ^ Suc 6" by (simp_all add: s_def)
  then have q: "double_quantum s = 1 / 2 ^ (52 - 6)" by (rule double_quantum_eq) simp
  have d: "s / double_quantum s = 10569385375485133 / 2"
    unfolding q by (simp add: s_def)
  have "round_half_even (10569385375485133 / 2) = 5284692687742566"
    by (simp add: round_half_even_def)
  then have "round_double s = 5284692687742566 * double_quantum s"
    unfolding round_double_def d by (simp add: s_def)
  then show ?thesis unfolding s q by (simp add: double_75_1_def)
qed

lemma num_add_30_1_45:
  "num_add (PyFloat (Fin double_30_1)) (PyInt 45) = Inr (PyFloat (Fin double_75_1))"
proof -
  have "double_result (double_30_1 + 45) = Fin double_75_1"
    unfolding double_result_def round_double_30_1_plus_45 Let_def
    by (simp add: double_75_1_def double_30_1_def)
  then show ?thesis by (simp add: num_add.simps float_of_int_45)
qed

subsection \<open>Tables, digits, and the trace of instrument calls\<close>

lemma COMMANDS_read_error_code: "COMMANDS ''read error code'' = Some ''TE?''"
  by (simp add: COMMANDS_def)

lemma COMMANDS_wait: "COMMANDS ''wait for motion stop'' = Some ''WS''"
  by (simp add: COMMANDS_def)

lemma replies_logprint [simp]: "replies (logprint msg w) = replies w"
  by (simp add: logprint_def)
lemma sent_logprint [simp]: "sent (logprint msg w) = sent w"
  by (simp add: logprint_def)

lemma write_command_replies: "replies (snd (write_command m c a w)) = replies w"
proof (induction m c a w rule: write_command.induct)
  case (1 m command attempt w)
  show ?case
  proof (cases "replies w (length (sent w))")
    case Fails
    show ?thesis
    proof (cases "attempt < 3")
      case True
      from "1" [of "replies w (length (sent w))"
          "w\<lparr>sent := sent w @ [Write (instrument m) command]\<rparr>"] Fails True
      show ?thesis
        by (subst write_command.simps) (simp add: instrument_write_def logprint_def)
    next
      case False
      with Fails show ?thesis
        by (subst write_command.simps) (simp add: instrument_write_def logprint_def)
    qed
  next
    case (Returns x)
    then show ?thesis
      by (subst write_command.simps) (simp add: instrument_write_def)
  qed
qed

lemma digit_char_in: "d < 10 \<Longrightarrow> digit_char d \<in> set ''0123456789''"
proof -
  assume "d < 10"
  then have "d \<in> {0,1,2,3,4,5,6,7,8,9}" by auto
  then show ?thesis by (auto simp: digit_char_def)
qed

lemma str_nat_digits: "set (str_nat n) \<subseteq> set ''0123456789''"
proof (induction n rule: str_nat.induct)
  case (1 n)
  show ?case
  proof (cases "n < 10")
    case True
    then show ?thesis using digit_char_in [of n] by (subst str_nat.simps) simp
  next
    case False
    have "n mod 10 < 10" by simp
    then have "digit_char (n mod 10) \<in> set ''0123456789''" by (rule digit_char_in)
    with False "1" show ?thesis by (subst str_nat.simps) simp
  qed
qed

lemma str_int_not_V: "str_int ax \<noteq> ''V''"
proof
  assume a: "str_int ax = ''V''"
  show False
  proof (cases "ax < 0")
    case True
    with a show False by (simp add: str_int_def)
  next
    case False
    with a have "str_nat (nat ax) = ''V''" by (simp add: str_int_def)
    then have "CHR ''V'' \<in> set (str_nat (nat ax))" by simp
    with str_nat_digits [of "nat ax"] show False by auto
  qed
qed

lemma query_command_sent:
  "\<exists>k. 1 \<le> k \<and> int k \<le> max 1 (4 - a) \<and>
       sent (snd (query_command m c a w)) = sent w @ replicate k (Query (instrument m) c)"
proof (induction m c a w rule: query_command.induct)
  case (1 m command attempt w)
  let ?w1 = "w\<lparr>sent := sent w @ [Query (instrument m) command]\<rparr>"
  show ?case
  proof (cases "replies w (length (sent w))")
    case Fails
    show ?thesis
    proof (cases "attempt < 3")
      case True
      from "1" [of "replies w (length (sent w))" ?w1] Fails True
      obtain k where k: "1 \<le> k" "int k \<le> max 1 (4 - (attempt + 1))"
        "sent (snd (query_command m command (attempt + 1)
            (logprint (LogVisaIOError (name m) command attempt) ?w1)))
          = sent (logprint (LogVisaIOError (name m) command attempt) ?w1)
            @ replicate k (Query (instrument m) command)"
        by (auto simp: instrument_query_def)
      have "sent (snd (query_command m command attempt w))
            = sent w @ replicate (Suc k) (Query (instrument m) command)"
        using Fails True k(3)
        by (subst query_command.simps) (simp add: instrument_query_def)
      moreover have "int (Suc k) \<le> max 1 (4 - attempt)" using k(2) True by simp
      ultimately show ?thesis by (intro exI [of _ "Suc k"]) simp
    next
      case False
      with Fails have "sent (snd (query_command m command attempt w))
            = sent w @ replicate 1 (Query (instrument m) command)"
        by (subst query_command.simps) (simp add: instrument_query_def)
      then show ?thesis by (intro exI [of _ 1]) simp
    qed
  next
    case (Returns x)
    then have "sent (snd (query_command m command attempt w))
            = sent w @ replicate 1 (Query (instrument m) command)"
      by (subst query_command.simps) (simp add: instrument_query_def)
    then show ?thesis by (intro exI [of _ 1]) simp
  qed
qed

lemma write_command_sent:
  "\<exists>k. 1 \<le> k \<and> int k \<le> max 1 (4 - a) \<and>
       sent (snd (write_command m c a w)) = sent w @ replicate k (Write (instrument m) c)"
proof (induction m c a w rule: write_command.induct)
  case (1 m command attempt w)
  let ?w1 = "w\<lparr>sent := sent w @ [Write (instrument m) command]\<rparr>"
  show ?case
  proof (cases "replies w (length (sent w))")
    case Fails
    show ?thesis
    proof (cases "attempt < 3")
      case True
      from "1" [of "replies w (length (sent w))" ?w1] Fails True
      obtain k where k: "1 \<le> k" "int k \<le> max 1 (4 - (attempt + 1))"
        "sent (snd (write_command m command (attempt + 1)
            (logprint (LogVisaIOError (name m) command attempt) ?w1)))
          = sent (logprint (LogVisaIOError (name m) command attempt) ?w1)
            @ replicate k (Write (instrument m) command)"
        by (auto simp: instrument_write_def)
      have "sent (snd (write_command m command attempt w))
            = sent w @ replicate (Suc k) (Write (instrument m) command)"
        using Fails True k(3)
        by (subst write_command.simps) (simp add: instrument_write_def)
      moreover have "int (Suc k) \<le> max 1 (4 - attempt)" using k(2) True by simp
      ultimately show ?thesis by (intro exI [of _ "Suc k"]) simp
    next
      case False
      with Fails have "sent (snd (write_command m command attempt w))
            = sent w @ replicate 1 (Write (instrument m) command)"
        by (subst write_command.simps) (simp add: instrument_write_def)
      then show ?thesis by (intro exI [of _ 1]) simp
    qed
  next
    case (Returns x)
    then have "sent (snd (write_command m command attempt w))
            = sent w @ replicate 1 (Write (instrument m) command)"
      by (subst write_command.simps) (simp add: instrument_write_def)
    then show ?thesis by (intro exI [of _ 1]) simp
  qed
qed

lemma send_command_sent:
  assumes "\<not> testflight m" and "full_command m command parameter = Inr full"
  shows "\<exists>k j. 1 \<le> k \<and> k \<le> 3 \<and> 1 \<le> j \<and> j \<le> 3 \<and>
           sent (snd (send_command m command parameter w)) =
             sent w @ replicate k (Write (instrument m) full)
                    @ replicate j (Query (instrument m) ''TE?'')"
proof -
  let ?w1 = "snd (write_command m full 1 w)"
  obtain err0 w2 where q: "query_command m ''TE?'' 1 ?w1 = (err0, w2)"
    by (cases "query_command m ''TE?'' 1 ?w1")
  obtain k where k: "1 \<le> k" "int k \<le> max 1 (4 - 1)"
      "sent ?w1 = sent w @ replicate k (Write (instrument m) full)"
    using write_command_sent [of 1 m full w] by blast
  obtain j where j: "1 \<le> j" "int j \<le> max 1 (4 - 1)"
      "sent (snd (query_command m ''TE?'' 1 ?w1)) = sent ?w1 @ replicate j (Query (instrument m) ''TE?'')"
    using query_command_sent [of 1 m "''TE?''" ?w1] by blast
  have "sent (snd (send_command m command parameter w)) = sent w2"
    using assms q
    by (simp add: send_command_def COMMANDS_read_error_code split: sum.splits option.splits)
  with k j q have "sent (snd (send_command m command parameter w)) =
             sent w @ replicate k (Write (instrument m) full)
                    @ replicate j (Query (instrument m) ''TE?'')"
    by simp
  moreover from k(2) j(2) have "k \<le> 3" "j \<le> 3" by simp_all
  ultimately show ?thesis using k(1) j(1) by blast
qed

lemma query_command_three_failures:
  assumes "replies w (length (sent w)) = Fails"
    and "replies w (Suc (length (sent w))) = Fails"
    and "replies w (Suc (Suc (length (sent w)))) = Fails"
  shows "query_command m c 1 w =
     (''VisaIOError'',
      w\<lparr>sent := sent w @ [Query (instrument m) c, Query (instrument m) c, Query (instrument m) c],
        logged := logged w @ [LogVisaIOError (name m) c 1, LogVisaIOError (name m) c 2,
                              LogVisaIOError (name m) c 3, LogThreeAttemptsFailed]\<rparr>)"
  using assms
  apply (subst query_command.simps)
  apply (simp add: instrument_query_def logprint_def)
  apply (subst query_command.simps)
  apply (simp add: instrument_query_def logprint_def)
  apply (subst query_command.simps)
  apply (simp add: instrument_query_def logprint_def)
  done

lemma write_command_three_failures:
  assumes "replies w (length (sent w)) = Fails"
    and "replies w (Suc (length (sent w))) = Fails"
    and "replies w (Suc (Suc (length (sent w)))) = Fails"
  shows "write_command m c 1 w =
     (None,
      w\<lparr>sent := sent w @ [Write (instrument m) c, Write (instrument m) c, Write (instrument m) c],
        logged := logged w @ [LogVisaIOError (name m) c 1, LogVisaIOError (name m) c 2,
                              LogVisaIOError (name m) c 3, LogThreeAttemptsFailed]\<rparr>)"
  using assms
  apply (subst write_command.simps)
  apply (simp add: instrument_write_def logprint_def)
  apply (subst write_command.simps)
  apply (simp add: instrument_write_def logprint_def)
  apply (subst write_command.simps)
  apply (simp add: instrument_write_def logprint_def)
  done

lemma query_command_third_attempt:
  assumes "replies w (length (sent w)) = Fails"
    and "replies w (Suc (length (sent w))) = Fails"
    and "replies w (Suc (Suc (length (sent w)))) = Returns r"
  shows "query_command m c 1 w =
     (r,
      w\<lparr>sent := sent w @ [Query (instrument m) c, Query (instrument m) c, Query (instrument m) c],
        logged := logged w @ [LogVisaIOError (name m) c 1, LogVisaIOError (name m) c 2]\<rparr>)"
  using assms
  apply (subst query_command.simps)
  apply (simp add: instrument_query_def logprint_def)
  apply (subst query_command.simps)
  apply (simp add: instrument_query_def logprint_def)
  apply (subst query_command.simps)
  apply (simp add: instrument_query_def logprint_def)
  done

lemma write_command_third_attempt:
  assumes "replies w (length (sent w)) = Fails"
    and "replies w (Suc (length (sent w))) = Fails"
    and "replies w (Suc (Suc (length (sent w)))) = Returns r"
  shows "write_command m c 1 w =
     (None,
      w\<lparr>sent := sent w @ [Write (instrument m) c, Write (instrument m) c, Write (instrument m) c],
        logged := logged w @ [LogVisaIOError (name m) c 1, LogVisaIOError (name m) c 2]\<rparr>)"
  using assms
  apply (subst write_command.simps)
  apply (simp add: instrument_write_def logprint_def)
  apply (subst write_command.simps)
  apply (simp add: instrument_write_def logprint_def)
  apply (subst write_command.simps)
  apply (simp add: instrument_write_def logprint_def)
  done

lemma query_command_returns:
  assumes "replies w (length (sent w)) = Returns r"
  shows "query_command m c a w = (r, w\<lparr>sent := sent w @ [Query (instrument m) c]\<rparr>)"
  using assms by (subst query_command.simps) (simp add: instrument_query_def)

lemma write_command_returns:
  assumes "replies w (length (sent w)) = Returns r"
  shows "write_command m c a w = (None, w\<lparr>sent := sent w @ [Write (instrument m) c]\<rparr>)"
  using assms by (subst write_command.simps) (simp add: instrument_write_def)

lemma str_int_1: "str_int 1 = ''1''"
  by (simp add: str_int_def str_nat.simps digit_char_def)

lemma str_int_2: "str_int 2 = ''2''"
  by (simp add: str_int_def str_nat.simps digit_char_def)

lemma str_in_sublist: "str_in sub s = sublist sub s"
  by (induction s) (auto simp: sublist_Cons_right)

lemma COMMANDS_none:
  assumes "command \<noteq> ''define home''" "command \<noteq> ''move to absolute position''"
    "command \<noteq> ''move to relative position''" "command \<noteq> ''read error code''"
    "command \<noteq> ''search for home''" "command \<noteq> ''set home search mode''"
    "command \<noteq> ''set velocity''" "command \<noteq> ''wait for motion stop''"
  shows "COMMANDS command = None"
  using assms by (simp add: COMMANDS_def)

lemma motion_table:
  "str_in ''move'' ''define home'' = False"
  "str_in ''move'' ''move to absolute position'' = True"
  "str_in ''move'' ''move to relative position'' = True"
  "str_in ''move'' ''read error code'' = False"
  "str_in ''move'' ''search for home'' = False"
  "str_in ''move'' ''set home search mode'' = False"
  "str_in ''move'' ''set velocity'' = False"
  "str_in ''move'' ''wait for motion stop'' = False"
  by code_simp+

lemma motion_commands:
  assumes "COMMANDS command = Some opcode"
  shows "str_in ''move'' command =
           (command = ''move to absolute position'' \<or> command = ''move to relative position'')"
proof (cases "command = ''move to absolute position''")
  case True
  then show ?thesis by (simp only: motion_table) simp
next
  case abs: False
  show ?thesis
  proof (cases "command = ''move to relative position''")
    case True
    then show ?thesis by (simp only: motion_table) simp
  next
    case rel: False
    have "\<not> str_in ''move'' command"
    proof (cases "command = ''define home''")
      case True then show ?thesis by (simp only: motion_table) simp
    next
      case c1: False
      show ?thesis
      proof (cases "command = ''read error code''")
        case True then show ?thesis by (simp only: motion_table) simp
      next
        case c2: False
        show ?thesis
        proof (cases "command = ''search for home''")
          case True then show ?thesis by (simp only: motion_table) simp
        next
          case c3: False
          show ?thesis
          proof (cases "command = ''set home search mode''")
            case True then show ?thesis by (simp only: motion_table) simp
          next
            case c4: False
            show ?thesis
            proof (cases "command = ''set velocity''")
              case True then show ?thesis by (simp only: motion_table) simp
            next
              case c5: False
              show ?thesis
              proof (cases "command = ''wait for motion stop''")
                case True then show ?thesis by (simp only: motion_table) simp
              next
                case c6: False
                from c1 abs rel c2 c3 c4 c5 c6 have "COMMANDS command = None"
                  by (rule COMMANDS_none)
                with assms show ?thesis by simp
              qed
            qed
          qed
        qed
      qed
    qed
    with abs rel show ?thesis by simp
  qed
qed

lemma full_command_move_absolute:
  "full_command m ''move to absolute position'' parameter =
     Inr (str_int (axis m) @ ''PA'' @ parameter @ '';'' @ str_int (axis m) @ ''WS0'')"
  by (simp add: full_command_def COMMANDS_def motion_table)

lemma send_command_prefix: "prefix (sent w) (sent (snd (send_command m command parameter w)))"
proof (cases "testflight m")
  case True
  then show ?thesis by (simp add: send_command_def)
next
  case False
  show ?thesis
  proof (cases "full_command m command parameter")
    case (Inl e)
    with False show ?thesis by (simp add: send_command_def)
  next
    case (Inr full)
    from send_command_sent [OF False Inr, of w] show ?thesis by auto
  qed
qed

lemma get_current_position_sent:
  "sent (snd (get_current_position py m w)) =
     sent w @ (if testflight m then [] else [Query (instrument m) (str_int (axis m) @ ''TP?'')])"
  by (simp add: get_current_position_def instrument_query_def split: outcome.splits option.splits)

lemma new_position_world:
  "snd (new_position py m degrees mode w) =
     (if mode = ''relative'' \<and> \<not> testflight m
      then w\<lparr>sent := sent w @ [Query (instrument m) (str_int (axis m) @ ''TP?'')]\<rparr> else w)"
  by (simp add: new_position_def get_current_position_def instrument_query_def
      split: outcome.splits option.splits prod.splits sum.splits)

lemma move_prefix: "prefix (sent w) (sent (snd (move py m degrees mode verbose w)))"
proof -
  obtain r w1 where n: "new_position py m degrees mode w = (r, w1)"
    by (cases "new_position py m degrees mode w")
  with new_position_world [of py m degrees mode w] have p1: "prefix (sent w) (sent w1)"
    by (auto split: if_splits)
  show ?thesis
  proof (cases r)
    case (Inl e)
    with n p1 show ?thesis by (simp add: move_def)
  next
    case (Inr target)
    let ?w2 = "if verbose then logprint (LogMoving (axis m) target) w1 else w1"
    have "prefix (sent ?w2) (sent (snd (send_command m ''move to absolute position'' (py_str py target) ?w2)))"
      by (rule send_command_prefix)
    then have "prefix (sent w1) (sent (snd (send_command m ''move to absolute position'' (py_str py target) ?w2)))"
      by (cases verbose) simp_all
    with p1 have "prefix (sent w) (sent (snd (send_command m ''move to absolute position'' (py_str py target) ?w2)))"
      by (rule prefix_order.trans)
    with n Inr p1 show ?thesis
      by (auto simp: move_def Let_def split: prod.splits sum.splits)
  qed
qed

lemma str_int_31: "str_int 31 = ''31''"
  by (simp add: str_int_def str_nat.simps digit_char_def)

lemma str_int_180: "str_int 180 = ''180''"
  by (simp add: str_int_def str_nat.simps digit_char_def)

lemma send_command_ok:
  assumes "\<not> testflight m"
    and "full_command m command parameter = Inr full"
    and "replies w (length (sent w)) = Returns r"
    and "replies w (Suc (length (sent w))) = Returns ''0''"
  shows "send_command m command parameter w =
           (Inr True, w\<lparr>sent := sent w @ [Write (instrument m) full, Query (instrument m) ''TE?'']\<rparr>)"
proof -
  let ?w1 = "w\<lparr>sent := sent w @ [Write (instrument m) full]\<rparr>"
  have b: "replies ?w1 (length (sent ?w1)) = Returns ''0''"
    using assms(4) by simp
  show ?thesis
    unfolding send_command_def
    by (simp only: assms(1,2) if_False sum.case Let_def write_command_returns [OF assms(3)]
          snd_conv COMMANDS_read_error_code option.sel query_command_returns [OF b] prod.case)
       (simp add: strip_axis_def)
qed

lemma example_motor_fields:
  "name (example_motor nm ax tf) = nm"
  "instrument (example_motor nm ax tf) = ''GPIB0::1::INSTR''"
  "axis (example_motor nm ax tf) = ax"
  "bounds (example_motor nm ax tf) = (PyInt (- 180), PyInt 180)"
  "testflight (example_motor nm ax tf) = tf"
  "current_position (example_motor nm ax tf) = PyFloat (Fin 0)"
  by (simp_all add: example_motor_def)

lemma example_world_fields:
  "replies (example_world rs) k = (if k < length rs then rs ! k else Returns ''0'')"
  "sent (example_world rs) = []"
  "logged (example_world rs) = []"
  by (simp_all add: example_world_def)

lemma example_builtins_fields:
  "float_str example_builtins (Fin double_75_1) = ''75.1''"
  "float_str example_builtins (Fin 175) = ''175.0''"
  "float_str example_builtins (Fin 190) = ''190.0''"
  "float_parse example_builtins ''30.1'' = Some (Fin double_30_1)"
  "float_parse example_builtins ''170.0'' = Some (Fin 170)"
  by (simp_all add: example_builtins_def double_75_1_def)

lemma example_get_current_position_170:
  "get_current_position example_builtins (example_motor nm 1 False) (example_world [Returns ''170.00''])
     = (Inr (PyFloat (Fin 170)),
        (example_world [Returns ''170.00''])\<lparr>sent := [Query ''GPIB0::1::INSTR'' ''1TP?'']\<rparr>)"
  by (simp add: get_current_position_def instrument_query_def example_motor_fields
      example_world_fields example_builtins_fields str_int_1)

lemma move_absolute_allowed:
  assumes "num_le (fst (bounds m)) degrees \<and> num_le degrees (snd (bounds m))"
  shows "move py m degrees ''absolute'' verbose w =
           (case send_command m ''move to absolute position'' (py_str py degrees)
                   (if verbose then logprint (LogMoving (axis m) degrees) w else w) of
              (Inl e, w') \<Rightarrow> (Inl e, w')
            | (Inr ok, w') \<Rightarrow> (Inr (), w'))"
  using assms by (simp add: move_def new_position_def)

lemma move_absolute_allowed_first_call:
  assumes "num_le (fst (bounds m)) degrees \<and> num_le degrees (snd (bounds m))"
    and t: "\<not> testflight m"
  shows "sent (snd (move py m degrees ''absolute'' verbose w)) ! length (sent w) =
           Write (instrument m)
             (str_int (axis m) @ ''PA'' @ py_str py degrees @ '';'' @ str_int (axis m) @ ''WS0'')"
proof -
  let ?w2 = "if verbose then logprint (LogMoving (axis m) degrees) w else w"
  let ?s = "send_command m ''move to absolute position'' (py_str py degrees) ?w2"
  let ?wire = "str_int (axis m) @ ''PA'' @ py_str py degrees @ '';'' @ str_int (axis m) @ ''WS0''"
  obtain k j where "1 \<le> k" and s: "sent (snd ?s) =
           sent ?w2 @ replicate k (Write (instrument m) ?wire)
                  @ replicate j (Query (instrument m) ''TE?'')"
    using send_command_sent [OF t full_command_move_absolute, of "py_str py degrees" ?w2] by blast
  from \<open>1 \<le> k\<close> obtain k' where "k = Suc k'" by (cases k) auto
  with s have "sent (snd ?s) ! length (sent w) = Write (instrument m) ?wire"
    by (simp add: nth_append)
  moreover have "snd (move py m degrees ''absolute'' verbose w) = snd ?s"
    unfolding move_absolute_allowed [OF assms(1)] by (simp split: prod.splits sum.splits)
  ultimately show ?thesis by simp
qed

lemma move_absolute_rejected:
  assumes "\<not> (num_le (fst (bounds m)) degrees \<and> num_le degrees (snd (bounds m)))"
  shows "move py m degrees ''absolute'' verbose w =
           (Inr (), logprint (LogOutOfBounds degrees (axis m)) w)"
  using assms by (auto simp: move_def new_position_def)

subsection \<open>Retrying writes and queries\<close>

text \<open>
  Claim C5. A call of \<open>write_command\<close> or \<open>query_command\<close> makes at most three attempts
  (\<open>write_command_sent\<close>, \<open>query_command_sent\<close>); two failures and a success give the
  result of the success; after three failed attempts the call is to report the transport
  error. \<open>query_command\<close> returns the string \<open>'VisaIOError'\<close>. \<open>write_command\<close> does not:
  line 198 calls itself without returning the result, so the \<open>'VisaIOError'\<close> of the third
  attempt is dropped and the call returns \<open>None\<close>, which is also what a write that
  succeeds returns. There is no fourth attempt.
\<close>

theorem C5_write_command_three_failures_returns_None:
  "write_command (example_motor ''linear polarizer'' 1 False) ''1DH0'' 1
       (example_world [Fails, Fails, Fails])
     = (None, (example_world [Fails, Fails, Fails])
          \<lparr>sent := [Write ''GPIB0::1::INSTR'' ''1DH0'', Write ''GPIB0::1::INSTR'' ''1DH0'',
                    Write ''GPIB0::1::INSTR'' ''1DH0''],
            logged := [LogVisaIOError ''linear polarizer'' ''1DH0'' 1,
                       LogVisaIOError ''linear polarizer'' ''1DH0'' 2,
                       LogVisaIOError ''linear polarizer'' ''1DH0'' 3,
                       LogThreeAttemptsFailed]\<rparr>)
   \<and> fst (write_command (example_motor ''linear polarizer'' 1 False) ''1DH0'' 1
          (example_world [Fails, Fails, Returns ''''])) = None
   \<and> fst (write_command (example_motor ''linear polarizer'' 1 False) ''1DH0'' 1
          (example_world [Returns ''''])) = None
   \<and> fst (query_command (example_motor ''linear polarizer'' 1 False) ''TE?'' 1
          (example_world [Fails, Fails, Fails])) = ''VisaIOError''
   \<and> fst (query_command (example_motor ''linear polarizer'' 1 False) ''TE?'' 1
          (example_world [Fails, Fails, Returns ''7''])) = ''7''"
proof -
  let ?m = "example_motor ''linear polarizer'' 1 False"
  let ?w = "example_world [Fails, Fails, Fails]"
  let ?v = "example_world [Fails, Fails, Returns '''']"
  let ?u = "example_world [Fails, Fails, Returns ''7'']"
  have a: "replies ?w (length (sent ?w)) = Fails"
    "replies ?w (Suc (length (sent ?w))) = Fails"
    "replies ?w (Suc (Suc (length (sent ?w)))) = Fails"
    by (simp_all add: example_world_fields)
  have b: "replies (example_world [Returns '''']) (length (sent (example_world [Returns '''']))) = Returns ''''"
    by (simp add: example_world_fields)
  have c: "replies ?v (length (sent ?v)) = Fails"
    "replies ?v (Suc (length (sent ?v))) = Fails"
    "replies ?v (Suc (Suc (length (sent ?v)))) = Returns ''''"
    by (simp_all add: example_world_fields)
  have d: "replies ?u (length (sent ?u)) = Fails"
    "replies ?u (Suc (length (sent ?u))) = Fails"
    "replies ?u (Suc (Suc (length (sent ?u)))) = Returns ''7''"
    by (simp_all add: example_world_fields)
  show ?thesis
    by (simp add: write_command_three_failures [OF a] query_command_three_failures [OF a]
        write_command_returns [OF b] write_command_third_attempt [OF c]
        query_command_third_attempt [OF d] example_world_fields example_motor_fields)
qed

text \<open>
  Claim C2. A \<open>send_command\<close> whose write fails on all three attempts must not report
  success. It does: \<open>send_command\<close> does not look at what \<open>write_command\<close> returns and
  goes on to read the error code; the controller, which never received the command,
  answers \<open>'0'\<close>, and \<open>send_command\<close> returns \<open>True\<close>.
\<close>

theorem C2_send_command_True_after_three_failed_writes:
  "fst (send_command (example_motor ''linear polarizer'' 1 False) ''define home'' ''0''
          (example_world [Fails, Fails, Fails, Returns ''0''])) = Inr True
   \<and> sent (snd (send_command (example_motor ''linear polarizer'' 1 False) ''define home'' ''0''
          (example_world [Fails, Fails, Fails, Returns ''0'']))) =
       [Write ''GPIB0::1::INSTR'' ''1DH0'', Write ''GPIB0::1::INSTR'' ''1DH0'',
        Write ''GPIB0::1::INSTR'' ''1DH0'', Query ''GPIB0::1::INSTR'' ''TE?'']"
proof -
  let ?m = "example_motor ''linear polarizer'' 1 False"
  let ?w = "example_world [Fails, Fails, Fails, Returns ''0'']"
  let ?w1 = "?w\<lparr>sent := sent ?w @ [Write (instrument ?m) ''1DH0'', Write (instrument ?m) ''1DH0'', Write (instrument ?m) ''1DH0''],
        logged := logged ?w @ [LogVisaIOError (name ?m) ''1DH0'' 1, LogVisaIOError (name ?m) ''1DH0'' 2,
                              LogVisaIOError (name ?m) ''1DH0'' 3, LogThreeAttemptsFailed]\<rparr>"
  have a: "replies ?w (length (sent ?w)) = Fails"
    "replies ?w (Suc (length (sent ?w))) = Fails"
    "replies ?w (Suc (Suc (length (sent ?w)))) = Fails"
    by (simp_all add: example_world_def)
  have b: "replies ?w1 (length (sent ?w1)) = Returns ''0''"
    by (simp add: example_world_def)
  have f: "full_command ?m ''define home'' ''0'' = Inr ''1DH0''"
    by (simp add: full_command_def COMMANDS_def example_motor_def str_int_1)
  have t: "\<not> testflight ?m" by (simp add: example_motor_def)
  have "send_command ?m ''define home'' ''0'' ?w =
          (Inr True, ?w1\<lparr>sent := sent ?w1 @ [Query (instrument ?m) ''TE?'']\<rparr>)"
    unfolding send_command_def
    by (simp only: t f if_False sum.case Let_def write_command_three_failures [OF a] snd_conv
          COMMANDS_read_error_code option.sel query_command_returns [OF b] prod.case)
       (simp add: strip_axis_def)
  then show ?thesis
    by (simp add: example_world_def example_motor_def)
qed

text \<open>
  Claim C10. In real mode, when the query for the error code fails on all three attempts,
  \<open>query_command\<close> gives the string \<open>'VisaIOError'\<close>. \<open>send_command\<close> treats it as the
  controller's answer: no axis number starts with \<open>V\<close>, so nothing is stripped; it is not
  \<open>'0'\<close> and not in \<open>ERROR_CODES\<close>; the call returns \<open>False\<close> after logging the message
  for an unknown error code.
\<close>

theorem C10_failed_error_query_is_unknown_error_code:
  assumes "\<not> testflight m"
    and "full_command m command parameter = Inr full"
    and "w1 = snd (write_command m full 1 w)"
    and "replies w (length (sent w1)) = Fails"
    and "replies w (Suc (length (sent w1))) = Fails"
    and "replies w (Suc (Suc (length (sent w1)))) = Fails"
    and "w2 = w1\<lparr>sent := sent w1 @ [Query (instrument m) ''TE?'', Query (instrument m) ''TE?'',
                                     Query (instrument m) ''TE?''],
                 logged := logged w1 @ [LogVisaIOError (name m) ''TE?'' 1,
                                        LogVisaIOError (name m) ''TE?'' 2,
                                        LogVisaIOError (name m) ''TE?'' 3,
                                        LogThreeAttemptsFailed]\<rparr>"
  shows "query_command m ''TE?'' 1 w1 = (''VisaIOError'', w2)
     \<and> strip_axis (axis m) ''VisaIOError'' = Inr ''VisaIOError''
     \<and> ''VisaIOError'' \<noteq> ''0''
     \<and> ERROR_CODES ''VisaIOError'' = None
     \<and> send_command m command parameter w =
         (Inr False, logprint (LogErrorUnknown ''VisaIOError'' (name m)) w2)"
proof -
  have r: "replies w1 = replies w"
    using assms(3) by (simp add: write_command_replies)
  have q: "query_command m ''TE?'' 1 w1 = (''VisaIOError'', w2)"
    using query_command_three_failures [of w1 m "''TE?''"] assms(4-7) r by simp
  have s: "strip_axis (axis m) ''VisaIOError'' = Inr ''VisaIOError''"
    using str_int_not_V [of "axis m"] by (auto simp: strip_axis_def)
  have e: "ERROR_CODES ''VisaIOError'' = None"
    by (simp add: ERROR_CODES_def)
  have "send_command m command parameter w =
         (Inr False, logprint (LogErrorUnknown ''VisaIOError'' (name m)) w2)"
    unfolding send_command_def
    by (simp only: assms(1,2) if_False sum.case Let_def assms(3) [symmetric]
          COMMANDS_read_error_code option.sel q prod.case s)
       (simp add: e)
  with q s e show ?thesis by simp
qed

text \<open>
  The hypotheses of C10 hold for a write that succeeds followed by three failing queries.
\<close>

theorem C10_failed_error_query_witness:
  "fst (send_command (example_motor ''linear polarizer'' 1 False) ''set velocity'' ''4''
          (example_world [Returns '''', Fails, Fails, Fails])) = Inr False
   \<and> logged (snd (send_command (example_motor ''linear polarizer'' 1 False) ''set velocity'' ''4''
          (example_world [Returns '''', Fails, Fails, Fails]))) =
       [LogVisaIOError ''linear polarizer'' ''TE?'' 1, LogVisaIOError ''linear polarizer'' ''TE?'' 2,
        LogVisaIOError ''linear polarizer'' ''TE?'' 3, LogThreeAttemptsFailed,
        LogErrorUnknown ''VisaIOError'' ''linear polarizer'']
   \<and> sent (snd (send_command (example_motor ''linear polarizer'' 1 False) ''set velocity'' ''4''
          (example_world [Returns '''', Fails, Fails, Fails]))) =
       [Write ''GPIB0::1::INSTR'' ''1VA4'', Query ''GPIB0::1::INSTR'' ''TE?'',
        Query ''GPIB0::1::INSTR'' ''TE?'', Query ''GPIB0::1::INSTR'' ''TE?'']"
proof -
  let ?m = "example_motor ''linear polarizer'' 1 False"
  let ?w = "example_world [Returns '''', Fails, Fails, Fails]"
  let ?w1 = "snd (write_command ?m ''1VA4'' 1 ?w)"
  have t: "\<not> testflight ?m" by (simp add: example_motor_fields)
  have f: "full_command ?m ''set velocity'' ''4'' = Inr ''1VA4''"
    by (simp add: full_command_def COMMANDS_def motion_table example_motor_fields str_int_1)
  have a: "replies ?w (length (sent ?w)) = Returns ''''"
    by (simp add: example_world_fields)
  have w1: "?w1 = ?w\<lparr>sent := sent ?w @ [Write (instrument ?m) ''1VA4'']\<rparr>"
    by (simp add: write_command_returns [OF a])
  have l: "sent ?w1 = [Write ''GPIB0::1::INSTR'' ''1VA4'']" "logged ?w1 = []"
    unfolding w1 by (simp_all add: example_world_fields example_motor_fields)
  have r: "replies ?w (length (sent ?w1)) = Fails"
    "replies ?w (Suc (length (sent ?w1))) = Fails"
    "replies ?w (Suc (Suc (length (sent ?w1)))) = Fails"
    unfolding l by (simp_all add: example_world_fields)
  have c: "send_command ?m ''set velocity'' ''4'' ?w =
      (Inr False, logprint (LogErrorUnknown ''VisaIOError'' (name ?m))
         (?w1\<lparr>sent := sent ?w1 @ [Query (instrument ?m) ''TE?'', Query (instrument ?m) ''TE?'',
                                     Query (instrument ?m) ''TE?''],
               logged := logged ?w1 @ [LogVisaIOError (name ?m) ''TE?'' 1,
                                        LogVisaIOError (name ?m) ''TE?'' 2,
                                        LogVisaIOError (name ?m) ''TE?'' 3,
                                        LogThreeAttemptsFailed]\<rparr>))"
    using C10_failed_error_query_is_unknown_error_code [OF t f refl r refl]
    by (elim conjE) assumption
  show ?thesis
    unfolding c by (simp add: logprint_def l example_motor_fields)
qed

subsection \<open>The command text and the error code\<close>

text \<open>
  Claim C7. For every operation of the opcode table, the text written to the instrument
  is the specification's wire string: axis, opcode and parameter, followed by
  \<open>;\<close>, the axis, the opcode \<open>WS\<close> of "wait for motion stop" and \<open>0\<close> exactly when the
  operation's name contains \<open>move\<close> (by \<open>motion_commands\<close>: the two move operations of
  the table). In real mode it is the first call that \<open>send_command\<close> makes.
\<close>

theorem C7_wire_string:
  assumes "COMMANDS command = Some opcode"
  shows "COMMANDS ''wait for motion stop'' = Some ''WS''
     \<and> full_command m command parameter =
           Inr (spec_wire_string (str_int (axis m)) opcode parameter ''WS''
                  (str_in ''move'' command))
     \<and> (\<not> testflight m \<longrightarrow>
           sent (snd (send_command m command parameter w)) ! length (sent w) =
             Write (instrument m)
               (spec_wire_string (str_int (axis m)) opcode parameter ''WS''
                  (str_in ''move'' command)))"
proof -
  let ?wire = "spec_wire_string (str_int (axis m)) opcode parameter ''WS'' (str_in ''move'' command)"
  have f: "full_command m command parameter = Inr ?wire"
    using assms by (simp add: full_command_def spec_wire_string_def COMMANDS_wait)
  have "sent (snd (send_command m command parameter w)) ! length (sent w) = Write (instrument m) ?wire"
    if t: "\<not> testflight m"
  proof -
    obtain k j where "1 \<le> k" and s: "sent (snd (send_command m command parameter w)) =
             sent w @ replicate k (Write (instrument m) ?wire)
                    @ replicate j (Query (instrument m) ''TE?'')"
      using send_command_sent [OF t f, of w] by blast
    from \<open>1 \<le> k\<close> obtain k' where "k = Suc k'" by (cases k) auto
    with s show ?thesis by (simp add: nth_append)
  qed
  with f show ?thesis by (simp add: COMMANDS_wait)
qed

text \<open>
  C7 at "move to absolute position" with parameter 90 and at "set velocity" with 4.
\<close>

theorem C7_wire_string_witness:
  "COMMANDS ''move to absolute position'' = Some ''PA''
   \<and> full_command (example_motor ''linear polarizer'' 1 False) ''move to absolute position'' ''90''
       = Inr ''1PA90;1WS0''
   \<and> COMMANDS ''set velocity'' = Some ''VA''
   \<and> full_command (example_motor ''linear polarizer'' 1 False) ''set velocity'' ''4''
       = Inr ''1VA4''
   \<and> sent (snd (send_command (example_motor ''linear polarizer'' 1 False)
                    ''move to absolute position'' ''90'' (example_world []))) ! 0
       = Write ''GPIB0::1::INSTR'' ''1PA90;1WS0''"
proof -
  let ?m = "example_motor ''linear polarizer'' 1 False"
  have h1: "COMMANDS ''move to absolute position'' = Some ''PA''"
    and h2: "COMMANDS ''set velocity'' = Some ''VA''"
    by (simp_all add: COMMANDS_def)
  have mv: "str_in ''move'' ''move to absolute position'' = True"
    and sv: "str_in ''move'' ''set velocity'' = False"
    by code_simp+
  show ?thesis
    using h1 h2 C7_wire_string [OF h1, of ?m "''90''" "example_world []"]
      C7_wire_string [OF h2, of ?m "''4''" "example_world []"]
    by (simp add: mv sv spec_wire_string_def example_motor_def example_world_def str_int_1)
qed

text \<open>
  Claim C3, as stated: the axis number is dropped from a response of more than one
  character. The code asks for more than two (\<open>len(err) > 2\<close>): on axis 1 the response
  \<open>'10'\<close> is kept and reported as error 10; stripped, it would read \<open>'0'\<close>, success.
\<close>

theorem C3_counterexample_two_characters_kept:
  "strip_axis 1 ''10'' = Inr ''10''
   \<and> fst (send_command (example_motor ''linear polarizer'' 1 False) ''set velocity'' ''4''
            (example_world [Returns '''', Returns ''10''])) = Inr False
   \<and> logged (snd (send_command (example_motor ''linear polarizer'' 1 False) ''set velocity'' ''4''
            (example_world [Returns '''', Returns ''10'']))) =
       [LogErrorKnown ''10'' ''MAXIMUM VELOCITY EXCEEDED'' ''linear polarizer'' ''1VA4'']"
proof -
  let ?m = "example_motor ''linear polarizer'' 1 False"
  let ?w = "example_world [Returns '''', Returns ''10'']"
  let ?w1 = "?w\<lparr>sent := sent ?w @ [Write (instrument ?m) ''1VA4'']\<rparr>"
  have a: "replies ?w (length (sent ?w)) = Returns ''''"
    by (simp add: example_world_def)
  have b: "replies ?w1 (length (sent ?w1)) = Returns ''10''"
    by (simp add: example_world_def)
  have f: "full_command ?m ''set velocity'' ''4'' = Inr ''1VA4''"
    by (simp add: full_command_def COMMANDS_def example_motor_def str_int_1)
  have t: "\<not> testflight ?m" by (simp add: example_motor_def)
  have s: "strip_axis 1 ''10'' = Inr ''10''"
    by (simp add: strip_axis_def)
  have "send_command ?m ''set velocity'' ''4'' ?w =
          (Inr False, logprint (LogErrorKnown ''10'' ''MAXIMUM VELOCITY EXCEEDED'' (name ?m) ''1VA4'')
             (?w1\<lparr>sent := sent ?w1 @ [Query (instrument ?m) ''TE?'']\<rparr>))"
    unfolding send_command_def
    by (simp only: t f if_False sum.case Let_def write_command_returns [OF a] snd_conv
          COMMANDS_read_error_code option.sel query_command_returns [OF b] prod.case)
       (simp add: example_motor_def s ERROR_CODES_def)
  then show ?thesis using s
    by (simp add: example_world_def example_motor_def logprint_def)
qed

text \<open>
  Claim C3, amended: the leading character is dropped exactly when it equals the text of
  the axis number and the response has more than two characters; a response of one or
  two characters is never changed, and the empty response raises IndexError.
\<close>

theorem C3_strip_axis_characterised:
  "(strip_axis ax err = Inr (tl err)) = ([hd err] = str_int ax \<and> 2 < length err)
   \<and> (strip_axis ax err = Inr err) = (err \<noteq> [] \<and> \<not> ([hd err] = str_int ax \<and> 2 < length err))
   \<and> (strip_axis ax err = Inl IndexError) = (err = [])"
  by (cases err) (auto simp: strip_axis_def)

text \<open>
  C3 on axis 1: \<open>'113'\<close> is stripped, \<open>'1'\<close> and \<open>'17'\<close> are not; on axis 2 \<open>'113'\<close> is kept.
\<close>

theorem C3_strip_axis_examples:
  "strip_axis 1 ''113'' = Inr ''13'' \<and> strip_axis 1 ''1'' = Inr ''1''
   \<and> strip_axis 1 ''17'' = Inr ''17'' \<and> strip_axis 2 ''113'' = Inr ''113''"
  using C3_strip_axis_characterised [of 1 "''113''"] C3_strip_axis_characterised [of 1 "''1''"]
    C3_strip_axis_characterised [of 1 "''17''"] C3_strip_axis_characterised [of 2 "''113''"]
  by (simp add: str_int_1 str_int_2)

text \<open>
  Claim C9, as stated: an operation name that is not in the opcode table is a failure
  of the call that does not raise through. In real mode the lookup \<open>COMMANDS[command]\<close>
  raises KeyError, which nothing in the module catches; in testflight mode the name is
  never looked up and the call returns \<open>True\<close>.
\<close>

theorem C9_counterexample_KeyError_raised:
  "send_command (example_motor ''linear polarizer'' 1 False) ''fly'' '''' (example_world [])
     = (Inl (KeyError ''fly''), example_world [])
   \<and> send_command (example_motor ''linear polarizer'' 1 True) ''fly'' '''' (example_world [])
     = (Inr True, example_world [])"
  by (simp add: send_command_def full_command_def COMMANDS_def example_motor_def)

text \<open>
  Claim C9, amended: in real mode \<open>send_command\<close> with a name outside the table raises
  KeyError before any call on the instrument (the world is unchanged); in testflight
  mode it returns \<open>True\<close>, also with the world unchanged.
\<close>

theorem C9_unknown_operation:
  assumes "COMMANDS command = None"
  shows "send_command m command parameter w =
           (if testflight m then (Inr True, w) else (Inl (KeyError command), w))"
  using assms by (simp add: send_command_def full_command_def)

text \<open>
  C9 for the name "fly" on a motor in real mode.
\<close>

theorem C9_unknown_operation_witness:
  "COMMANDS ''fly'' = None
   \<and> send_command (example_motor ''quarter wave plate'' 2 False) ''fly'' ''1'' (example_world [Fails])
       = (Inl (KeyError ''fly''), example_world [Fails])"
proof -
  have h: "COMMANDS ''fly'' = None" by (simp add: COMMANDS_def)
  show ?thesis
    using h C9_unknown_operation [OF h, of "example_motor ''quarter wave plate'' 2 False" "''1''"
        "example_world [Fails]"]
    by (simp add: example_motor_def)
qed

subsection \<open>Moves and bounds\<close>

text \<open>
  Claim C8. With bounds \<open>bounds[0] <= bounds[1]\<close>, an absolute move whose target equals
  (\<open>==\<close>) one of the two bounds is allowed: \<open>move\<close> passes "move to absolute position" with the
  target to \<open>send_command\<close>, and in real mode the first call on the instrument writes
  that command.
\<close>

theorem C8_move_to_bound_accepted:
  assumes "num_le (fst (bounds m)) (snd (bounds m))"
    and "num_eq degrees (fst (bounds m)) \<or> num_eq degrees (snd (bounds m))"
  shows "move py m degrees ''absolute'' verbose w =
           (case send_command m ''move to absolute position'' (py_str py degrees)
                   (if verbose then logprint (LogMoving (axis m) degrees) w else w) of
              (Inl e, w') \<Rightarrow> (Inl e, w')
            | (Inr ok, w') \<Rightarrow> (Inr (), w'))
       \<and> (\<not> testflight m \<longrightarrow>
            sent (snd (move py m degrees ''absolute'' verbose w)) ! length (sent w) =
              Write (instrument m)
                (str_int (axis m) @ ''PA'' @ py_str py degrees @ '';'' @ str_int (axis m) @ ''WS0''))"
proof -
  have allowed: "num_le (fst (bounds m)) degrees \<and> num_le degrees (snd (bounds m))"
    using assms(2)
  proof
    assume e: "num_eq degrees (fst (bounds m))"
    from num_eq_le [OF e] num_eq_le_right [OF e, of "snd (bounds m)"] assms(1)
    show ?thesis by simp
  next
    assume e: "num_eq degrees (snd (bounds m))"
    from num_eq_le [OF e] num_eq_le_left [OF e, of "fst (bounds m)"] assms(1)
    show ?thesis by simp
  qed
  show ?thesis
    using move_absolute_allowed [OF allowed, of py verbose w]
      move_absolute_allowed_first_call [OF allowed, of py verbose w]
    by blast
qed

text \<open>
  C8 on the default bounds \<open>[-180, 180]\<close>: an absolute move to 180 writes
  \<open>1PA180;1WS0\<close>.
\<close>

theorem C8_move_to_bound_witness:
  "num_le (fst (bounds (example_motor ''linear polarizer'' 1 False)))
          (snd (bounds (example_motor ''linear polarizer'' 1 False)))
   \<and> num_eq (PyInt 180) (snd (bounds (example_motor ''linear polarizer'' 1 False)))
   \<and> sent (snd (move example_builtins (example_motor ''linear polarizer'' 1 False) (PyInt 180)
                   ''absolute'' True (example_world []))) ! 0
       = Write ''GPIB0::1::INSTR'' ''1PA180;1WS0''"
proof -
  let ?m = "example_motor ''linear polarizer'' 1 False"
  have h1: "num_le (fst (bounds ?m)) (snd (bounds ?m))"
    by (simp add: example_motor_fields num_le_def)
  have e: "num_eq (PyInt 180) (snd (bounds ?m))"
    by (simp add: example_motor_fields num_eq_def)
  then have h2: "num_eq (PyInt 180) (fst (bounds ?m)) \<or> num_eq (PyInt 180) (snd (bounds ?m))" ..
  have t: "\<not> testflight ?m" by (simp add: example_motor_fields)
  have "sent (snd (move example_builtins ?m (PyInt 180) ''absolute'' True (example_world []))) !
          length (sent (example_world [])) =
        Write (instrument ?m) (str_int (axis ?m) @ ''PA'' @ py_str example_builtins (PyInt 180)
                                 @ '';'' @ str_int (axis ?m) @ ''WS0'')"
    using C8_move_to_bound_accepted [OF h1 h2, of example_builtins True "example_world []"] t
    by blast
  then have "sent (snd (move example_builtins ?m (PyInt 180) ''absolute'' True (example_world []))) ! 0
       = Write ''GPIB0::1::INSTR'' ''1PA180;1WS0''"
    by (simp add: example_motor_fields example_world_fields str_int_1 str_int_180)
  with h1 e show ?thesis by (intro conjI)
qed

text \<open>
  Claim C4, as stated: a move whose target is out of bounds makes no call on the
  instrument and its result tells the caller so. With the axis at 170 in real mode,
  \<open>move(20, 'relative')\<close> queries the position to compute the target 190, and returns
  \<open>None\<close>; \<open>move(5, 'relative')\<close>, which is accepted, returns \<open>None\<close> as well.
\<close>

theorem C4_counterexample_relative_move_queries_and_returns_None:
  "move example_builtins (example_motor ''linear polarizer'' 1 False) (PyInt 20) ''relative'' True
      (example_world [Returns ''170.00''])
     = (Inr (), (example_world [Returns ''170.00''])
                  \<lparr>sent := [Query ''GPIB0::1::INSTR'' ''1TP?''],
                    logged := [LogOutOfBounds (PyFloat (Fin 190)) 1]\<rparr>)
   \<and> fst (move example_builtins (example_motor ''linear polarizer'' 1 False) (PyInt 5) ''relative'' True
          (example_world [Returns ''170.00''])) = Inr ()"
proof -
  let ?m = "example_motor ''linear polarizer'' 1 False"
  let ?w = "example_world [Returns ''170.00'']"
  let ?w1 = "?w\<lparr>sent := [Query ''GPIB0::1::INSTR'' ''1TP?'']\<rparr>"
  let ?w2 = "logprint (LogMoving 1 (PyFloat (Fin 175))) ?w1"
  have t: "\<not> testflight ?m" by (simp add: example_motor_fields)
  have n1: "new_position example_builtins ?m (PyInt 20) ''relative'' ?w = (Inr (PyFloat (Fin 190)), ?w1)"
    unfolding new_position_def example_get_current_position_170 by (simp add: num_add_170_20)
  have n2: "new_position example_builtins ?m (PyInt 5) ''relative'' ?w = (Inr (PyFloat (Fin 175)), ?w1)"
    unfolding new_position_def example_get_current_position_170 by (simp add: num_add_170_5)
  have 1: "move example_builtins ?m (PyInt 20) ''relative'' True ?w
     = (Inr (), ?w\<lparr>sent := [Query ''GPIB0::1::INSTR'' ''1TP?''],
                    logged := [LogOutOfBounds (PyFloat (Fin 190)) 1]\<rparr>)"
    unfolding move_def n1
    by (simp add: num_le_def example_motor_fields logprint_def example_world_fields)
  have s: "send_command ?m ''move to absolute position'' ''175.0'' ?w2 =
           (Inr True, ?w2\<lparr>sent := sent ?w2 @ [Write (instrument ?m) ''1PA175.0;1WS0'',
                                                 Query (instrument ?m) ''TE?'']\<rparr>)"
    by (rule send_command_ok [OF t])
       (simp_all add: full_command_move_absolute example_motor_fields str_int_1 example_world_fields)
  have 2: "fst (move example_builtins ?m (PyInt 5) ''relative'' True ?w) = Inr ()"
    unfolding move_def n2
    by (simp add: num_le_def example_motor_fields example_builtins_fields s)
  from 1 2 show ?thesis by simp
qed

text \<open>
  Claim C4, amended: when the computed target is outside the bounds, \<open>move\<close> writes no
  command. It logs the rejection and returns \<open>None\<close>. The world it logs into is the one
  after computing the target: unchanged for an absolute move and in testflight mode,
  and with the one position query \<open>TP?\<close> added for a relative move in real mode.
\<close>

theorem C4_out_of_bounds_no_command_written:
  assumes "new_position py m degrees mode w = (Inr target, w1)"
    and "\<not> (num_le (fst (bounds m)) target \<and> num_le target (snd (bounds m)))"
  shows "move py m degrees mode verbose w =
           (Inr (), logprint (LogOutOfBounds target (axis m)) w1)
       \<and> w1 = (if mode = ''relative'' \<and> \<not> testflight m
               then w\<lparr>sent := sent w @ [Query (instrument m) (str_int (axis m) @ ''TP?'')]\<rparr>
               else w)"
proof -
  have "move py m degrees mode verbose w =
           (Inr (), logprint (LogOutOfBounds target (axis m)) w1)"
    using assms by (auto simp: move_def)
  moreover have "w1 = (if mode = ''relative'' \<and> \<not> testflight m
               then w\<lparr>sent := sent w @ [Query (instrument m) (str_int (axis m) @ ''TP?'')]\<rparr>
               else w)"
    using new_position_world [of py m degrees mode w] assms(1) by simp
  ultimately show ?thesis by simp
qed

text \<open>
  C4 for \<open>move(200, 'absolute')\<close> on the bounds \<open>[-180, 180]\<close>.
\<close>

theorem C4_out_of_bounds_witness:
  "new_position example_builtins (example_motor ''linear polarizer'' 1 False) (PyInt 200)
       ''absolute'' (example_world []) = (Inr (PyInt 200), example_world [])
   \<and> \<not> (num_le (fst (bounds (example_motor ''linear polarizer'' 1 False))) (PyInt 200)
          \<and> num_le (PyInt 200) (snd (bounds (example_motor ''linear polarizer'' 1 False))))
   \<and> move example_builtins (example_motor ''linear polarizer'' 1 False) (PyInt 200)
       ''absolute'' True (example_world [])
     = (Inr (), logprint (LogOutOfBounds (PyInt 200) 1) (example_world []))
   \<and> sent (logprint (LogOutOfBounds (PyInt 200) 1) (example_world [])) = []"
proof -
  let ?m = "example_motor ''linear polarizer'' 1 False"
  have h1: "new_position example_builtins ?m (PyInt 200) ''absolute'' (example_world [])
              = (Inr (PyInt 200), example_world [])"
    by (simp add: new_position_def)
  have h2: "\<not> (num_le (fst (bounds ?m)) (PyInt 200) \<and> num_le (PyInt 200) (snd (bounds ?m)))"
    by (simp add: num_le_def example_motor_fields)
  have "move example_builtins ?m (PyInt 200) ''absolute'' True (example_world [])
     = (Inr (), logprint (LogOutOfBounds (PyInt 200) (axis ?m)) (example_world []))"
    using C4_out_of_bounds_no_command_written [OF h1 h2, of True]
    by (elim conjE) assumption
  then have c: "move example_builtins ?m (PyInt 200) ''absolute'' True (example_world [])
     = (Inr (), logprint (LogOutOfBounds (PyInt 200) 1) (example_world []))"
    by (simp only: example_motor_fields)
  have s: "sent (logprint (LogOutOfBounds (PyInt 200) 1) (example_world [])) = []"
    by (simp add: example_world_fields)
  from h1 h2 c s show ?thesis by (intro conjI)
qed

text \<open>
  Claim C1, as stated: in testflight mode two calls \<open>move(10, 'relative')\<close> leave the
  position at 20.0. \<open>send_command\<close> returns \<open>True\<close> at once in testflight mode and nothing
  assigns \<open>current_position\<close>: the position read afterwards is still 0.0.
\<close>

theorem C1_counterexample_position_stays_at_zero:
  "Motor_init example_builtins ''linear polarizer'' ''GPIB0::1::INSTR'' 1
       (PyInt (- 180), PyInt 180) (PyInt 4) True (example_world [])
     = (Inr (example_motor ''linear polarizer'' 1 True), example_world [])
   \<and> fst (get_current_position example_builtins (example_motor ''linear polarizer'' 1 True)
        (snd (move example_builtins (example_motor ''linear polarizer'' 1 True) (PyInt 10) ''relative'' True
        (snd (move example_builtins (example_motor ''linear polarizer'' 1 True) (PyInt 10) ''relative'' True
               (example_world [])))))) = Inr (PyFloat (Fin 0))
   \<and> \<not> num_eq (PyFloat (Fin 0)) (PyFloat (Fin 20))"
  by (simp add: Motor_init_def example_motor_def get_current_position_def num_eq_def)

text \<open>
  Claim C1, amended: in testflight mode a move makes no call on the instrument and
  leaves the position untouched: \<open>get_current_position\<close> after it returns the position the
  motor was built with. A relative move only logs: that it moves, when the target is
  within the bounds and \<open>verbose\<close> is set, or that the target is out of bounds (and it
  raises OverflowError when \<open>degrees\<close> is an int too large for a float).
\<close>

theorem C1_simulated_move_keeps_position:
  assumes "testflight m"
  shows "sent (snd (move py m degrees mode verbose w)) = sent w
     \<and> get_current_position py m (snd (move py m degrees mode verbose w)) =
         (Inr (current_position m), snd (move py m degrees mode verbose w))
     \<and> move py m degrees ''relative'' verbose w =
         (case num_add (current_position m) degrees of
            Inl e \<Rightarrow> (Inl e, w)
          | Inr target \<Rightarrow>
              (Inr (),
               if num_le (fst (bounds m)) target \<and> num_le target (snd (bounds m))
               then (if verbose then logprint (LogMoving (axis m) target) w else w)
               else logprint (LogOutOfBounds target (axis m)) w))"
  using assms
  by (simp add: move_def new_position_def get_current_position_def send_command_def
      split: sum.splits)

text \<open>
  C1 for \<open>move(10, 'relative')\<close> on a motor built in testflight mode.
\<close>

theorem C1_simulated_move_witness:
  "testflight (example_motor ''linear polarizer'' 1 True)
   \<and> sent (snd (move example_builtins (example_motor ''linear polarizer'' 1 True) (PyInt 10)
                   ''relative'' True (example_world []))) = []
   \<and> move example_builtins (example_motor ''linear polarizer'' 1 True) (PyInt 10) ''relative'' True
        (example_world [])
      = (Inr (), logprint (LogMoving 1 (PyFloat (Fin 10))) (example_world []))"
proof -
  let ?m = "example_motor ''linear polarizer'' 1 True"
  have h: "testflight ?m"
    by (simp add: example_motor_fields)
  note c = C1_simulated_move_keeps_position [OF h, of example_builtins "PyInt 10" "''relative''" True
        "example_world []"]
  have "sent (snd (move example_builtins ?m (PyInt 10) ''relative'' True (example_world [])))
          = sent (example_world [])"
    using c by (elim conjE) assumption
  then have s: "sent (snd (move example_builtins ?m (PyInt 10) ''relative'' True (example_world []))) = []"
    by (simp only: example_world_fields)
  have "move example_builtins ?m (PyInt 10) ''relative'' True (example_world []) =
         (case num_add (current_position ?m) (PyInt 10) of
            Inl e \<Rightarrow> (Inl e, example_world [])
          | Inr target \<Rightarrow>
              (Inr (),
               if num_le (fst (bounds ?m)) target \<and> num_le target (snd (bounds ?m))
               then (if True then logprint (LogMoving (axis ?m) target) (example_world [])
                     else example_world [])
               else logprint (LogOutOfBounds target (axis ?m)) (example_world [])))"
    using c by (elim conjE) assumption
  then have m: "move example_builtins ?m (PyInt 10) ''relative'' True (example_world [])
      = (Inr (), logprint (LogMoving 1 (PyFloat (Fin 10))) (example_world []))"
    by (simp add: example_motor_fields num_add_0_10 num_le_def)
  from h s m show ?thesis by (intro conjI)
qed

subsection \<open>The polarizer\<close>

text \<open>
  Claim C6. \<open>Polarizer.set\<close> moves the linear polarizer, reads its position back, and
  moves the quarter-wave plate to that position plus 45, in this order: when the first
  move and the read-back return (with worlds \<open>w1\<close> and \<open>w2\<close> and position \<open>p\<close>), the
  result is that of the absolute move of the second motor to the target \<open>p + 45\<close> from
  \<open>w2\<close>; the requested \<open>degrees\<close> do not enter the target. The target is the sum that
  line 239 computes: \<open>i + 45\<close> for an int \<open>i\<close>, and the float sum with \<open>45.0\<close> for a float.
  In value, for a finite \<open>p\<close> and a finite target: the target of an int is \<open>p + 45\<close>; the
  target of a float is the double nearest to \<open>p + 45\<close>, within half a quantum of it, and
  it is \<open>p + 45\<close> itself whenever \<open>p + 45\<close> is a double. The calls of the first move
  come first, then the position query, then the calls of the second move; in real mode
  with the target within the second motor's bounds, the first of them writes "move to
  absolute position" with the target, and with the target out of bounds there is none.
\<close>

theorem C6_quarter_wave_target_is_read_back_plus_45:
  assumes "move py (lin_polarizer pol) degrees ''absolute'' verbose w = (Inr u, w1)"
    and "get_current_position py (lin_polarizer pol) w1 = (Inr p, w2)"
  shows "\<exists>target.
       num_add p (PyInt 45) = Inr target
     \<and> (case p of PyInt i \<Rightarrow> target = PyInt (i + 45)
                 | PyFloat f \<Rightarrow> target = PyFloat (float_add f (Fin 45)))
     \<and> (\<forall>v r. num_ext p = Some (Value v) \<and> num_ext target = Some (Value r) \<longrightarrow>
            (case p of PyInt i \<Rightarrow> r = v + 45 | PyFloat f \<Rightarrow> r = round_double (v + 45))
          \<and> \<bar>r - (v + 45)\<bar> \<le> double_quantum (v + 45) / 2
          \<and> (\<forall>k. (v + 45) / double_quantum (v + 45) = of_int k \<longrightarrow> r = v + 45))
     \<and> Polarizer_set py pol degrees verbose w =
           move py (quart_lambda pol) target ''absolute'' verbose w2
     \<and> prefix (sent w) (sent w1)
     \<and> sent w2 = sent w1 @
          (if testflight (lin_polarizer pol) then []
           else [Query (instrument (lin_polarizer pol))
                       (str_int (axis (lin_polarizer pol)) @ ''TP?'')])
     \<and> prefix (sent w2) (sent (snd (Polarizer_set py pol degrees verbose w)))
     \<and> (if num_le (fst (bounds (quart_lambda pol))) target
            \<and> num_le target (snd (bounds (quart_lambda pol)))
         then \<not> testflight (quart_lambda pol) \<longrightarrow>
              sent (snd (Polarizer_set py pol degrees verbose w)) ! length (sent w2) =
                Write (instrument (quart_lambda pol))
                  (str_int (axis (quart_lambda pol)) @ ''PA'' @ py_str py target
                     @ '';'' @ str_int (axis (quart_lambda pol)) @ ''WS0'')
         else sent (snd (Polarizer_set py pol degrees verbose w)) = sent w2)"
proof -
  let ?q = "quart_lambda pol"
  define t where
    "t = (case p of PyInt i \<Rightarrow> PyInt (i + 45) | PyFloat f \<Rightarrow> PyFloat (float_add f (Fin 45)))"
  have a: "num_add p (PyInt 45) = Inr t"
    unfolding t_def by (rule num_add_45)
  have b: "case p of PyInt i \<Rightarrow> t = PyInt (i + 45)
                   | PyFloat f \<Rightarrow> t = PyFloat (float_add f (Fin 45))"
    unfolding t_def by (cases p) simp_all
  have c: "(case p of PyInt i \<Rightarrow> r = v + 45 | PyFloat f \<Rightarrow> r = round_double (v + 45))
          \<and> \<bar>r - (v + 45)\<bar> \<le> double_quantum (v + 45) / 2
          \<and> (\<forall>k. (v + 45) / double_quantum (v + 45) = of_int k \<longrightarrow> r = v + 45)"
    if "num_ext p = Some (Value v) \<and> num_ext t = Some (Value r)" for v r
  proof (cases p)
    case (PyInt i)
    with that have "r = v + 45" by (simp add: t_def)
    with PyInt show ?thesis using double_quantum_pos [of "v + 45"] by simp
  next
    case (PyFloat f)
    with that have "float_ext f = Some (Value v)"
      and "float_ext (float_add f (Fin 45)) = Some (Value r)"
      by (simp_all add: t_def)
    then have r: "r = round_double (v + 45)" by (rule float_add_45_ext)
    have "\<bar>r - (v + 45)\<bar> \<le> double_quantum (v + 45) / 2"
      unfolding r by (rule round_double_error)
    moreover have "r = v + 45" if "(v + 45) / double_quantum (v + 45) = of_int k" for k
      unfolding r using that by (rule round_double_representable)
    ultimately show ?thesis using PyFloat r by simp
  qed
  have eq: "Polarizer_set py pol degrees verbose w = move py ?q t ''absolute'' verbose w2"
    using assms a by (simp add: Polarizer_set_def)
  have p1: "prefix (sent w) (sent w1)"
    using move_prefix [of w py "lin_polarizer pol" degrees "''absolute''" verbose] assms(1)
    by simp
  have p2: "sent w2 = sent w1 @
          (if testflight (lin_polarizer pol) then []
           else [Query (instrument (lin_polarizer pol))
                       (str_int (axis (lin_polarizer pol)) @ ''TP?'')])"
    using get_current_position_sent [of py "lin_polarizer pol" w1] assms(2) by simp
  have p3: "prefix (sent w2) (sent (snd (Polarizer_set py pol degrees verbose w)))"
    unfolding eq by (rule move_prefix)
  have p4: "sent (snd (Polarizer_set py pol degrees verbose w)) ! length (sent w2) =
                Write (instrument ?q)
                  (str_int (axis ?q) @ ''PA'' @ py_str py t @ '';'' @ str_int (axis ?q) @ ''WS0'')"
    if "num_le (fst (bounds ?q)) t \<and> num_le t (snd (bounds ?q))" and "\<not> testflight ?q"
    unfolding eq using that by (rule move_absolute_allowed_first_call)
  have p5: "sent (snd (Polarizer_set py pol degrees verbose w)) = sent w2"
    if "\<not> (num_le (fst (bounds ?q)) t \<and> num_le t (snd (bounds ?q)))"
    unfolding eq move_absolute_rejected [OF that] by simp
  have p45: "if num_le (fst (bounds ?q)) t \<and> num_le t (snd (bounds ?q))
         then \<not> testflight ?q \<longrightarrow>
              sent (snd (Polarizer_set py pol degrees verbose w)) ! length (sent w2) =
                Write (instrument ?q)
                  (str_int (axis ?q) @ ''PA'' @ py_str py t @ '';'' @ str_int (axis ?q) @ ''WS0'')
         else sent (snd (Polarizer_set py pol degrees verbose w)) = sent w2"
    using p4 p5 by simp
  from a b c eq p1 p2 p3 p45 show ?thesis
    by (intro exI [of _ t] conjI allI impI) blast+
qed

text \<open>
  C6 with a request of 31 degrees and a controller that reports 30.1: the quarter-wave
  plate is sent to 75.1, the double nearest to the sum of the double 30.1 and 45 (the
  sum itself lies halfway between two doubles).
\<close>

theorem C6_quarter_wave_target_witness:
  "move example_builtins (lin_polarizer example_polarizer) (PyInt 31) ''absolute'' True
       (example_world [Returns '''', Returns ''0'', Returns ''30.10''])
     = (Inr (), (example_world [Returns '''', Returns ''0'', Returns ''30.10''])
                  \<lparr>sent := [Write ''GPIB0::1::INSTR'' ''1PA31;1WS0'', Query ''GPIB0::1::INSTR'' ''TE?''],
                    logged := [LogMoving 1 (PyInt 31)]\<rparr>)
   \<and> fst (get_current_position example_builtins (lin_polarizer example_polarizer)
        ((example_world [Returns '''', Returns ''0'', Returns ''30.10''])
                  \<lparr>sent := [Write ''GPIB0::1::INSTR'' ''1PA31;1WS0'', Query ''GPIB0::1::INSTR'' ''TE?''],
                    logged := [LogMoving 1 (PyInt 31)]\<rparr>)) = Inr (PyFloat (Fin double_30_1))
   \<and> num_add (PyFloat (Fin double_30_1)) (PyInt 45) = Inr (PyFloat (Fin double_75_1))
   \<and> double_75_1 = round_double (double_30_1 + 45)
   \<and> double_75_1 \<noteq> double_30_1 + 45
   \<and> sent (snd (Polarizer_set example_builtins example_polarizer (PyInt 31) True
                   (example_world [Returns '''', Returns ''0'', Returns ''30.10'']))) ! 3
       = Write ''GPIB0::1::INSTR'' ''2PA75.1;2WS0''"
proof -
  let ?l = "example_motor ''linear polarizer'' 1 False"
  let ?q = "example_motor ''quarter wave plate'' 2 False"
  let ?w = "example_world [Returns '''', Returns ''0'', Returns ''30.10'']"
  let ?wm = "logprint (LogMoving 1 (PyInt 31)) ?w"
  let ?w1 = "?w\<lparr>sent := [Write ''GPIB0::1::INSTR'' ''1PA31;1WS0'', Query ''GPIB0::1::INSTR'' ''TE?''],
                    logged := [LogMoving 1 (PyInt 31)]\<rparr>"
  let ?w2 = "?w1\<lparr>sent := sent ?w1 @ [Query ''GPIB0::1::INSTR'' ''1TP?'']\<rparr>"
  let ?t = "PyFloat (Fin double_75_1)"
  have pl: "lin_polarizer example_polarizer = ?l" and pq: "quart_lambda example_polarizer = ?q"
    by (simp_all add: example_polarizer_def)
  have t: "\<not> testflight ?l" by (simp add: example_motor_fields)
  have s: "send_command ?l ''move to absolute position'' ''31'' ?wm =
           (Inr True, ?wm\<lparr>sent := sent ?wm @ [Write (instrument ?l) ''1PA31;1WS0'',
                                                 Query (instrument ?l) ''TE?'']\<rparr>)"
    by (rule send_command_ok [OF t])
       (simp_all add: full_command_move_absolute example_motor_fields str_int_1 example_world_fields)
  have allowed: "num_le (fst (bounds ?l)) (PyInt 31) \<and> num_le (PyInt 31) (snd (bounds ?l))"
    by (simp add: num_le_def example_motor_fields)
  have m1: "move example_builtins ?l (PyInt 31) ''absolute'' True ?w = (Inr (), ?w1)"
    unfolding move_absolute_allowed [OF allowed]
    by (simp only: if_True py_str.simps str_int_31 example_motor_fields s prod.case sum.case)
       (simp add: logprint_def example_world_fields)
  have g: "get_current_position example_builtins ?l ?w1 = (Inr (PyFloat (Fin double_30_1)), ?w2)"
    by (simp add: get_current_position_def instrument_query_def example_motor_fields
        example_world_fields example_builtins_fields str_int_1)
  have a2: "num_le (fst (bounds ?q)) ?t \<and> num_le ?t (snd (bounds ?q))"
    by (simp add: num_le_def example_motor_fields double_75_1_def)
  have tq: "\<not> testflight ?q" by (simp add: example_motor_fields)
  have ne: "double_75_1 \<noteq> double_30_1 + 45"
    by (simp add: double_75_1_def double_30_1_def)
  obtain target where
    n: "num_add (PyFloat (Fin double_30_1)) (PyInt 45) = Inr target"
    and c: "if num_le (fst (bounds ?q)) target \<and> num_le target (snd (bounds ?q))
         then \<not> testflight ?q \<longrightarrow>
              sent (snd (Polarizer_set example_builtins example_polarizer (PyInt 31) True ?w))
                  ! length (sent ?w2) =
                Write (instrument ?q)
                  (str_int (axis ?q) @ ''PA'' @ py_str example_builtins target
                     @ '';'' @ str_int (axis ?q) @ ''WS0'')
         else sent (snd (Polarizer_set example_builtins example_polarizer (PyInt 31) True ?w)) = sent ?w2"
    using C6_quarter_wave_target_is_read_back_plus_45 [of example_builtins example_polarizer
      "PyInt 31" True ?w "()" ?w1 "PyFloat (Fin double_30_1)" ?w2, unfolded pl pq, OF m1 g]
    by (elim exE conjE) (rule that)
  from n have tg: "target = ?t" by (simp add: num_add_30_1_45)
  from c a2 tq have "sent (snd (Polarizer_set example_builtins example_polarizer (PyInt 31) True ?w))
                  ! length (sent ?w2) =
                Write (instrument ?q)
                  (str_int (axis ?q) @ ''PA'' @ py_str example_builtins ?t
                     @ '';'' @ str_int (axis ?q) @ ''WS0'')"
    unfolding tg by (simp only: if_True simp_thms)
  moreover have "length (sent ?w2) = 3" by simp
  moreover have "str_int (axis ?q) @ ''PA'' @ py_str example_builtins ?t
                     @ '';'' @ str_int (axis ?q) @ ''WS0'' = ''2PA75.1;2WS0''"
    by (simp add: example_motor_fields example_builtins_fields str_int_2)
  moreover have "instrument ?q = ''GPIB0::1::INSTR''" by (simp add: example_motor_fields)
  ultimately have r: "sent (snd (Polarizer_set example_builtins example_polarizer (PyInt 31) True ?w)) ! 3
       = Write ''GPIB0::1::INSTR'' ''2PA75.1;2WS0''"
    by (simp only:)
  have g': "fst (get_current_position example_builtins ?l ?w1) = Inr (PyFloat (Fin double_30_1))"
    unfolding g by simp
  from m1 g' num_add_30_1_45 round_double_30_1_plus_45 [symmetric] ne r
  show ?thesis unfolding pl by (intro conjI)
qed

end
